theory Spec2Isabelle
  imports Main "HOL-Library.Word" "HOL-Library.Code_Target_Numeral"
begin

section \<open>JavaScript strings\<close>

text \<open>
  A JavaScript string is a sequence of UTF-16 code units; \<open>length\<close>, \<open>===\<close>, \<open>split\<close>,
  \<open>startsWith\<close> and the regular expressions of the worker (none has the \<open>u\<close> flag) all
  work on code units. ASCII literals of the source are written with \<open>asc\<close>; the Cyrillic
  and emoji literals are given by their code units.
\<close>

type_synonym jsstring = "16 word list"

definition asc :: "string \<Rightarrow> jsstring" where
  "asc s = map (\<lambda>c. of_nat (of_char c)) s"

text \<open>\<open>s.startsWith(p)\<close>.\<close>

fun startsWith :: "jsstring \<Rightarrow> jsstring \<Rightarrow> bool" where
  "startsWith s [] = True"
| "startsWith [] (p # ps) = False"
| "startsWith (c # cs) (p # ps) = (c = p \<and> startsWith cs ps)"

text \<open>
  \<open>s.split(sep)\<close> for a one-character separator: the result always has a first part;
  \<open>parts[i]\<close> beyond the end is \<open>undefined\<close>, here \<open>None\<close>.
\<close>

fun js_split :: "16 word \<Rightarrow> jsstring \<Rightarrow> jsstring list" where
  "js_split sep [] = [[]]"
| "js_split sep (c # cs) =
     (if c = sep then [] # js_split sep cs
      else (case js_split sep cs of [] \<Rightarrow> [[c]] | p # ps \<Rightarrow> (c # p) # ps))"

fun index_opt :: "'a list \<Rightarrow> nat \<Rightarrow> 'a option" where
  "index_opt [] n = None"
| "index_opt (x # xs) 0 = Some x"
| "index_opt (x # xs) (Suc n) = index_opt xs n"

text \<open>Decimal rendering, as \<open>String(n)\<close> and template literals print an integer.\<close>

definition digit_char :: "nat \<Rightarrow> 16 word" where
  "digit_char d = of_nat (48 + d)"

fun show_nat :: "nat \<Rightarrow> jsstring" where
  "show_nat n = (if n < 10 then [digit_char n] else show_nat (n div 10) @ [digit_char (n mod 10)])"

declare show_nat.simps [simp del]

definition show_int :: "int \<Rightarrow> jsstring" where
  "show_int i = (if i < 0 then asc ''-'' @ show_nat (nat (- i)) else show_nat (nat i))"

text \<open>A template literal prints a missing value as the word \<open>undefined\<close>.\<close>

definition tpl :: "jsstring option \<Rightarrow> jsstring" where
  "tpl v = (case v of None \<Rightarrow> asc ''undefined'' | Some s \<Rightarrow> s)"

text \<open>Truthiness of an optional string: present and not empty.\<close>

definition truthy :: "jsstring option \<Rightarrow> bool" where
  "truthy v = (case v of None \<Rightarrow> False | Some s \<Rightarrow> s \<noteq> [])"

text \<open>\<open>v || d\<close> on an optional string.\<close>

definition or_else :: "jsstring option \<Rightarrow> jsstring \<Rightarrow> jsstring" where
  "or_else v d = (case v of None \<Rightarrow> d | Some s \<Rightarrow> if s = [] then d else s)"

text \<open>
  \<open>parseInt(n, 10)\<close> of a number: the number is printed first and its leading integer
  read back. An integer below \<open>10^21\<close> in magnitude prints in plain decimal and is read
  back unchanged; from \<open>10^21\<close> on it prints in exponent notation and only the digit
  before the point is read (taken here from the decimal expansion of the integer).
\<close>

fun leading_digit :: "nat \<Rightarrow> nat" where
  "leading_digit n = (if n < 10 then n else leading_digit (n div 10))"

declare leading_digit.simps [simp del]

definition parseInt_number :: "int \<Rightarrow> int" where
  "parseInt_number n =
     (if \<bar>n\<bar> < 10 ^ 21 then n else sgn n * int (leading_digit (nat \<bar>n\<bar>)))"

section \<open>Records of the key-value stores\<close>

datatype status = StNew | StConfirmed | StCancelled

datatype btype = Excursion | NyEvent | UnknownType

text \<open>\<open>booking.data\<close>: the answers copied from the session; each may be missing.\<close>

record booking_data =
  d_name :: "jsstring option"
  d_date :: "jsstring option"
  d_time :: "jsstring option"
  d_people :: "jsstring option"
  d_contact :: "jsstring option"
  d_nyEventTitle :: "jsstring option"
  d_username :: "jsstring option"

record booking =
  b_id :: jsstring
  b_type :: btype
  b_chatId :: int
  b_status :: status
  b_nyEventId :: "jsstring option"
  b_createdAt :: nat
  b_people :: int
  b_data :: booking_data

text \<open>The capacity counter of one event, \<open>{ capacity, booked }\<close>.\<close>

record event_state =
  capacity :: int
  booked :: int

datatype step =
    ex_name | ex_date | ex_time | ex_people | ex_contact
  | ny_choose | ny_name | ny_people | ny_contact

text \<open>The session object; \<open>{}\<close> is the session with every field missing.\<close>

record session =
  s_step :: "step option"
  s_name :: "jsstring option"
  s_date :: "jsstring option"
  s_time :: "jsstring option"
  s_people :: "jsstring option"
  s_contact :: "jsstring option"
  s_nyEventId :: "jsstring option"
  s_nyEventTitle :: "jsstring option"
  s_nyEventDate :: "jsstring option"
  s_expiresAt :: "nat option"

definition empty_session :: session where
  "empty_session = \<lparr> s_step = None, s_name = None, s_date = None, s_time = None,
     s_people = None, s_contact = None, s_nyEventId = None, s_nyEventTitle = None,
     s_nyEventDate = None, s_expiresAt = None \<rparr>"

section \<open>The event catalog\<close>

record event =
  ev_id :: jsstring
  ev_label :: jsstring
  ev_date :: jsstring
  ev_title :: jsstring

text \<open>
  Every label of the catalog is spelled out in the source and is its date, the
  separator space, em dash, space, and its title.
\<close>

definition mk_event :: "string \<Rightarrow> string \<Rightarrow> jsstring \<Rightarrow> event" where
  "mk_event i d t = \<lparr> ev_id = asc i, ev_label = asc d @ [0x20, 0x2014, 0x20] @ t,
     ev_date = asc d, ev_title = t \<rparr>"

definition winterEvents :: "event list" where
  "winterEvents =
   [mk_event ''ny-03'' ''03.01''
     [0x401, 0x43B, 0x43A, 0x430, 0x20, 0x443, 0x20, 0x421, 0x43D, 0x435, 0x436, 0x43D,
      0x43E, 0x439, 0x20, 0x43A, 0x43E, 0x440, 0x43E, 0x43B, 0x435, 0x432, 0x44B],
    mk_event ''ny-04'' ''04.01''
     [0x414, 0x435, 0x433, 0x443, 0x441, 0x442, 0x430, 0x446, 0x438, 0x44F, 0x20, 0xAB,
      0x41C, 0x438, 0x440, 0x20, 0x445, 0x43E, 0x43B, 0x43E, 0x434, 0x446, 0x430, 0x20,
      0x438, 0x20, 0x441, 0x442, 0x443, 0x434, 0x43D, 0x44F, 0xBB, 0x20, 0x28, 0x41A,
      0x43E, 0x43B, 0x43B, 0x430, 0x433, 0x435, 0x43D, 0x43E, 0x432, 0x44B, 0x439, 0x20,
      0x434, 0x435, 0x43D, 0x44C, 0x29],
    mk_event ''ny-05'' ''05.01''
     [0x421, 0x44B, 0x440, 0x43D, 0x44B, 0x435, 0x20, 0x442, 0x440, 0x430, 0x434, 0x438,
      0x446, 0x438, 0x438, 0x20, 0x43D, 0x430, 0x440, 0x43E, 0x434, 0x43E, 0x432, 0x20,
      0x43C, 0x438, 0x440, 0x430, 0x3A, 0x20, 0x418, 0x43D, 0x434, 0x438, 0x44F, 0x2C,
      0x20, 0x418, 0x442, 0x430, 0x43B, 0x438, 0x44F, 0x2C, 0x20, 0x424, 0x440, 0x430,
      0x43D, 0x446, 0x438, 0x44F],
    mk_event ''ny-06'' ''06.01''
     [0x414, 0x435, 0x442, 0x441, 0x43A, 0x430, 0x44F, 0x20, 0x43F, 0x440, 0x43E, 0x433,
      0x440, 0x430, 0x43C, 0x43C, 0x430, 0x20, 0xAB, 0x41A, 0x43E, 0x437, 0x430, 0x2D,
      0x414, 0x435, 0x440, 0x435, 0x437, 0x430, 0x20, 0x438, 0x20, 0x435, 0x451, 0x20,
      0x430, 0x444, 0x440, 0x438, 0x43A, 0x430, 0x43D, 0x441, 0x43A, 0x438, 0x435, 0x20,
      0x440, 0x43E, 0x434, 0x441, 0x442, 0x432, 0x435, 0x43D, 0x43D, 0x438, 0x43A, 0x438,
      0xBB],
    mk_event ''ny-07'' ''07.01''
     [0xAB, 0x41E, 0x442, 0x20, 0x43D, 0x43E, 0x441, 0x430, 0x20, 0x434, 0x43E, 0x20,
      0x445, 0x432, 0x43E, 0x441, 0x442, 0x430, 0xBB, 0x3A, 0x20, 0x434, 0x435, 0x433,
      0x443, 0x441, 0x442, 0x430, 0x446, 0x438, 0x44F, 0x20, 0x441, 0x44B, 0x440, 0x43E,
      0x432, 0x20, 0x438, 0x20, 0x441, 0x442, 0x435, 0x439, 0x43A, 0x438],
    mk_event ''ny-08'' ''08.01''
     [0x414, 0x435, 0x433, 0x443, 0x441, 0x442, 0x430, 0x446, 0x438, 0x44F, 0x20, 0xAB,
      0x41F, 0x438, 0x446, 0x446, 0x430, 0x20, 0x438, 0x20, 0x43A, 0x430, 0x43D, 0x43D,
      0x435, 0x43B, 0x43B, 0x43E, 0x43D, 0x438, 0xBB],
    mk_event ''ny-09'' ''09.01''
     [0x420, 0x443, 0x441, 0x441, 0x43A, 0x438, 0x439, 0x20, 0x434, 0x435, 0x43D, 0x44C,
      0x2E, 0x20, 0xAB, 0x417, 0x438, 0x43C, 0x43D, 0x438, 0x435, 0x20, 0x442, 0x440,
      0x430, 0x434, 0x438, 0x446, 0x438, 0x438, 0x20, 0x438, 0x20, 0x443, 0x433, 0x43E,
      0x449, 0x435, 0x43D, 0x438, 0x44F, 0xBB]]"

text \<open>\<open>winterEvents.find(e => e.id === x)\<close>; a missing \<open>x\<close> matches nothing.\<close>

definition find_event :: "jsstring option \<Rightarrow> event option" where
  "find_event x = (case x of None \<Rightarrow> None
     | Some i \<Rightarrow> List.find (\<lambda>e. ev_id e = i) winterEvents)"

section \<open>Effects and the world\<close>

text \<open>
  The texts sent through the Telegram API are fixed sentences with a few interpolated
  values. A text is modelled by a constructor naming the sentence and carrying the
  values it interpolates. The short notices of \<open>answerCallbackQuery\<close>:
\<close>

datatype notice =
    BookingNotFound        \<comment> \<open>the request was not found\<close>
  | AlreadyConfirmed       \<comment> \<open>the request is already confirmed\<close>
  | BadPeopleCount         \<comment> \<open>incorrect number of guests\<close>
  | NotEnoughSeats int     \<comment> \<open>not enough seats, with the number of free seats\<close>
  | ConfirmedNotice        \<comment> \<open>the request is confirmed\<close>
  | AlreadyCancelled       \<comment> \<open>the request is already declined\<close>
  | CancelledNotice        \<comment> \<open>the request is declined\<close>
  | UnknownAction
  | PermissionDenied       \<comment> \<open>insufficient rights\<close>
  | UnknownCommand
  | SummarySent
  | DetailSent

text \<open>The texts of \<open>sendMessage\<close> and \<open>editMessageText\<close>.\<close>

datatype text_msg =
    AdminConfirmedText booking "event option"
  | AdminCancelledText booking "event option"
  | UserConfirmedText booking "event option"
  | UserCancelledText booking
  | EventsSummaryText "(event \<times> event_state) list"
  | EventNotFoundText
  | EventDetailText event event_state
  | ChooseDayText
  | AdminOnlyText
  | ResetDoneText
  | WelcomeText
  | ChooseEventText
  | EventClosedText event
  | EventChosenText event
  | PickEventFromListText
  | InfoExcursionsText
  | InfoScheduleText
  | InfoRouteText
  | InfoProductsText
  | AskNameText
  | AskNameWithHintText
  | AskDateText
  | AskTimeText
  | AskPeopleText
  | AskNyPeopleText
  | PickPeopleButtonText
  | AskContactText
  | AskNyContactText
  | BadContactText
  | NewExcursionText booking session
  | NewNyEventText booking session "jsstring option"
  | ThanksExcursionText
  | ThanksNyEventText
  | FallbackText

datatype keyboard =
    MainKeyboard bool
  | MainKeyboardPlain
  | FlowKeyboard
  | ExPeopleKeyboard
  | NoKeyboard
  | WinterKeyboard
  | AdminBookingKeyboard jsstring
  | AdminEventsMenuKeyboard

text \<open>
  An effect is one write to a store or one call of the Telegram API, in the order the
  worker awaits them. \<open>console.log\<close> is not modelled, and a call of the API is taken to
  return (the worker does not look at its result).
\<close>

datatype effect =
    BookingsPut jsstring booking
  | EventsPut jsstring event_state
  | StatePut jsstring session
  | StateDelete jsstring
  | SendMessage int text_msg "keyboard option"
  | SendAdminMessage jsstring text_msg keyboard
  | EditMessageText int int text_msg
  | AnswerCallbackQuery jsstring notice

text \<open>
  The three namespaces \<open>env.BOOKINGS\<close>, \<open>env.EVENTS\<close> and \<open>env.STATE\<close> hold JSON
  texts; they are modelled as maps from keys to the records the worker writes there
  (a value that does not parse is treated by the worker as a missing one). \<open>trace\<close>
  lists the effects so far, oldest first.
\<close>

record world =
  BOOKINGS :: "jsstring \<rightharpoonup> booking"
  EVENTS :: "jsstring \<rightharpoonup> event_state"
  STATE :: "jsstring \<rightharpoonup> session"
  trace :: "effect list"

definition emit :: "effect \<Rightarrow> world \<Rightarrow> world" where
  "emit e w = w\<lparr> trace := trace w @ [e] \<rparr>"

text \<open>The store part of an effect, for replaying a prefix of a trace.\<close>

fun apply_effect :: "effect \<Rightarrow> world \<Rightarrow> world" where
  "apply_effect (BookingsPut k b) w = emit (BookingsPut k b) (w\<lparr> BOOKINGS := (BOOKINGS w)(k \<mapsto> b) \<rparr>)"
| "apply_effect (EventsPut k s) w = emit (EventsPut k s) (w\<lparr> EVENTS := (EVENTS w)(k \<mapsto> s) \<rparr>)"
| "apply_effect (StatePut k s) w = emit (StatePut k s) (w\<lparr> STATE := (STATE w)(k \<mapsto> s) \<rparr>)"
| "apply_effect (StateDelete k) w = emit (StateDelete k) (w\<lparr> STATE := (STATE w)(k := None) \<rparr>)"
| "apply_effect e w = emit e w"

definition replay :: "effect list \<Rightarrow> world \<Rightarrow> world" where
  "replay es w = foldl (\<lambda>v e. apply_effect e v) w es"

section \<open>Configuration\<close>

text \<open>\<open>env.ADMIN_USER_ID\<close> and \<open>env.ADMIN_CHAT_ID\<close>: strings that may be unset.\<close>

record env =
  ADMIN_USER_ID :: "jsstring option"
  ADMIN_CHAT_ID :: "jsstring option"

text \<open>\<open>String(userId)\<close> of a number that may be missing.\<close>

definition string_of_id :: "int option \<Rightarrow> jsstring" where
  "string_of_id u = (case u of None \<Rightarrow> asc ''undefined'' | Some n \<Rightarrow> show_int n)"

definition isAdminUserId :: "env \<Rightarrow> int option \<Rightarrow> bool" where
  "isAdminUserId e userId =
     (if \<not> truthy (ADMIN_USER_ID e) then False
      else string_of_id userId = tpl (ADMIN_USER_ID e))"

section \<open>Telegram helpers\<close>

definition sendMessage :: "int \<Rightarrow> text_msg \<Rightarrow> keyboard option \<Rightarrow> world \<Rightarrow> world" where
  "sendMessage chatId txt kb w = emit (SendMessage chatId txt kb) w"

definition editMessageText :: "int \<Rightarrow> int \<Rightarrow> text_msg \<Rightarrow> world \<Rightarrow> world" where
  "editMessageText chatId messageId txt w = emit (EditMessageText chatId messageId txt) w"

definition answerCallbackQuery :: "jsstring \<Rightarrow> notice \<Rightarrow> world \<Rightarrow> world" where
  "answerCallbackQuery cbId n w = emit (AnswerCallbackQuery cbId n) w"

section \<open>Store helpers\<close>

definition getBooking :: "jsstring option \<Rightarrow> world \<Rightarrow> booking option" where
  "getBooking bookingId w = BOOKINGS w (asc ''booking:'' @ tpl bookingId)"

definition saveBooking :: "booking \<Rightarrow> world \<Rightarrow> world" where
  "saveBooking b w =
     (if b_id b = [] then w
      else apply_effect (BookingsPut (asc ''booking:'' @ b_id b) b) w)"

text \<open>
  \<open>getEventState\<close> creates the counter on first read, with 40 seats and none booked,
  and writes it at once.
\<close>

definition getEventState :: "jsstring \<Rightarrow> world \<Rightarrow> (jsstring \<times> event_state) \<times> world" where
  "getEventState eventId w =
     (let key = asc ''event:'' @ eventId in
      case EVENTS w key of
        Some st \<Rightarrow> ((key, st), w)
      | None \<Rightarrow>
          (let st = \<lparr> capacity = 40, booked = 0 \<rparr>
           in ((key, st), apply_effect (EventsPut key st) w)))"

definition saveEventState :: "jsstring \<Rightarrow> event_state \<Rightarrow> world \<Rightarrow> world" where
  "saveEventState key st w = apply_effect (EventsPut key st) w"

section \<open>The operator's actions\<close>

text \<open>
  A callback query: its id, the sender (\<open>from.id\<close>), the payload \<open>data\<close> and the message
  the button sits on (\<open>message.chat.id\<close>, \<open>message.message_id\<close>); all but the id may be
  missing.
\<close>

record message_ref =
  m_chat_id :: int
  m_message_id :: int

record callback_query =
  cq_id :: jsstring
  cq_from :: "int option"
  cq_data :: "jsstring option"
  cq_message :: "message_ref option"

text \<open>The seat check of the confirm branch: it ends the action or lets it go on.\<close>

datatype 'a flow = Return 'a | Continue 'a

definition reserve_seats :: "jsstring \<Rightarrow> booking \<Rightarrow> world \<Rightarrow> world flow" where
  "reserve_seats cbId booking w =
     (if b_type booking = NyEvent \<and> truthy (b_nyEventId booking) then
        (case getEventState (tpl (b_nyEventId booking)) w of ((key, st), w1) \<Rightarrow>
           (let people = parseInt_number (b_people booking) in
            if people \<le> 0 then Return (answerCallbackQuery cbId BadPeopleCount w1)
            else if booked st + people > capacity st then
              (let free = capacity st - booked st
               in Return (answerCallbackQuery cbId
                            (NotEnoughSeats (if free < 0 then 0 else free)) w1))
            else Continue (saveEventState key (st\<lparr> booked := booked st + people \<rparr>) w1)))
      else Continue w)"

text \<open>\<open>if (chatId && messageId) await editMessageText(...)\<close>.\<close>

definition edit_admin_message :: "message_ref option \<Rightarrow> text_msg \<Rightarrow> world \<Rightarrow> world" where
  "edit_admin_message msg txt w =
     (case msg of None \<Rightarrow> w
      | Some m \<Rightarrow>
          if m_chat_id m \<noteq> 0 \<and> m_message_id m \<noteq> 0
          then editMessageText (m_chat_id m) (m_message_id m) txt w else w)"

text \<open>The event named in the texts: looked up only for an event booking with an event id.\<close>

definition booking_event :: "booking \<Rightarrow> event option" where
  "booking_event b =
     (if b_type b = NyEvent \<and> truthy (b_nyEventId b) then find_event (b_nyEventId b) else None)"

text \<open>
  \<open>parts = data.split(":")\<close>, \<open>action = parts[0]\<close> and \<open>bookingId = parts[1]\<close>, where
  \<open>data\<close> is \<open>callbackQuery.data || ""\<close>.
\<close>

definition callback_parts :: "callback_query \<Rightarrow> jsstring list" where
  "callback_parts cq = js_split 0x3A (or_else (cq_data cq) [])"

definition callback_action :: "callback_query \<Rightarrow> jsstring option" where
  "callback_action cq = index_opt (callback_parts cq) 0"

definition callback_bookingId :: "callback_query \<Rightarrow> jsstring option" where
  "callback_bookingId cq = index_opt (callback_parts cq) 1"

definition handleAdminBookingAction :: "callback_query \<Rightarrow> world \<Rightarrow> world" where
  "handleAdminBookingAction cq w =
     (let cbId = cq_id cq;
          msg = cq_message cq;
          action = callback_action cq;
          bookingId = callback_bookingId cq
      in case getBooking bookingId w of
           None \<Rightarrow> answerCallbackQuery cbId BookingNotFound w
         | Some booking \<Rightarrow>
             if action = Some (asc ''confirm'') then
               (if b_status booking = StConfirmed
                then answerCallbackQuery cbId AlreadyConfirmed w
                else
                  (case reserve_seats cbId booking w of
                     Return w1 \<Rightarrow> w1
                   | Continue w1 \<Rightarrow>
                       (let booking1 = booking\<lparr> b_status := StConfirmed \<rparr>;
                            w2 = saveBooking booking1 w1;
                            w3 = edit_admin_message msg
                                   (AdminConfirmedText booking1 (booking_event booking1)) w2;
                            w4 = (if b_chatId booking1 \<noteq> 0
                                  then sendMessage (b_chatId booking1)
                                         (UserConfirmedText booking1 (booking_event booking1))
                                         None w3
                                  else w3)
                        in answerCallbackQuery cbId ConfirmedNotice w4)))
             else if action = Some (asc ''cancel'') then
               (if b_status booking = StCancelled
                then answerCallbackQuery cbId AlreadyCancelled w
                else
                  (let booking1 = booking\<lparr> b_status := StCancelled \<rparr>;
                       w2 = saveBooking booking1 w;
                       w3 = edit_admin_message msg
                              (AdminCancelledText booking1 (booking_event booking1)) w2;
                       w4 = (if b_chatId booking1 \<noteq> 0
                             then sendMessage (b_chatId booking1) (UserCancelledText booking1)
                                    None w3
                             else w3)
                   in answerCallbackQuery cbId CancelledNotice w4))
             else answerCallbackQuery cbId UnknownAction w)"

section \<open>Summary and roster\<close>

text \<open>
  The worker answers every delivery it handles with \<open>Response("OK")\<close>; an exception that
  nothing catches ends the delivery instead.
\<close>

datatype response = ResponseOK | Uncaught

text \<open>
  \<open>sendEventsSummaryMessage\<close> reads the counter of every event of the catalog in order
  (creating the missing ones) and sends one text with all of them.
\<close>

fun read_event_states :: "event list \<Rightarrow> world \<Rightarrow> (event \<times> event_state) list \<times> world" where
  "read_event_states [] w = ([], w)"
| "read_event_states (ev # evs) w =
     (case getEventState (ev_id ev) w of ((key, st), w1) \<Rightarrow>
        (case read_event_states evs w1 of (rest, w2) \<Rightarrow> ((ev, st) # rest, w2)))"

definition sendEventsSummaryMessage :: "int \<Rightarrow> world \<Rightarrow> world" where
  "sendEventsSummaryMessage chatId w =
     (case read_event_states winterEvents w of (lines, w1) \<Rightarrow>
        sendMessage chatId (EventsSummaryText lines) None w1)"

text \<open>
  \<open>sendEventDetailMessage\<close>: the text also lists the bookings of the event, read from
  \<open>BOOKINGS\<close> without writing; those lines are not part of the model of the text.
\<close>

definition sendEventDetailMessage :: "int \<Rightarrow> jsstring option \<Rightarrow> world \<Rightarrow> world" where
  "sendEventDetailMessage chatId eventId w =
     (case find_event eventId of
        None \<Rightarrow> sendMessage chatId EventNotFoundText None w
      | Some ev \<Rightarrow>
          (case getEventState (ev_id ev) w of ((key, st), w1) \<Rightarrow>
             sendMessage chatId (EventDetailText ev st) None w1))"

text \<open>
  \<open>handleEventsSummaryCallback\<close> reads \<open>callbackQuery.message.chat.id\<close> and then splits
  \<open>callbackQuery.data\<close>, both without a guard: a query without a message, or without
  data, throws before any effect.
\<close>

definition handleEventsSummaryCallback :: "callback_query \<Rightarrow> world \<Rightarrow> response \<times> world" where
  "handleEventsSummaryCallback cq w =
     (case cq_message cq of
        None \<Rightarrow> (Uncaught, w)
      | Some m \<Rightarrow>
          (case cq_data cq of
             None \<Rightarrow> (Uncaught, w)
           | Some data \<Rightarrow>
               (let fromChatId = m_chat_id m;
                    suffix = index_opt (js_split 0x3A data) 1
                in if suffix = Some (asc ''all'') then
                     (ResponseOK, answerCallbackQuery (cq_id cq) SummarySent
                                    (sendEventsSummaryMessage fromChatId w))
                   else
                     (ResponseOK, answerCallbackQuery (cq_id cq) DetailSent
                                    (sendEventDetailMessage fromChatId suffix w)))))"

section \<open>Dispatch of a callback query\<close>

definition on_callback_query :: "env \<Rightarrow> callback_query \<Rightarrow> world \<Rightarrow> response \<times> world" where
  "on_callback_query e cq w =
     (if \<not> isAdminUserId e (cq_from cq)
      then (ResponseOK, answerCallbackQuery (cq_id cq) PermissionDenied w)
      else
        (let data = or_else (cq_data cq) []
         in if startsWith data (asc ''events:'') then handleEventsSummaryCallback cq w
            else if startsWith data (asc ''confirm:'') \<or> startsWith data (asc ''cancel:'')
            then (ResponseOK, handleAdminBookingAction cq w)
            else (ResponseOK, answerCallbackQuery (cq_id cq) UnknownCommand w)))"


section \<open>Text helpers of the conversation\<close>

text \<open>
  White space as \<open>trim()\<close>, the class \<open>\s\<close> and \<open>parseInt\<close> see it: tab, line feed,
  vertical tab, form feed, carriage return, space, no-break space, the Unicode space
  separators, the line and paragraph separators and the byte order mark.
\<close>

definition is_space :: "16 word \<Rightarrow> bool" where
  "is_space c =
     ((0x9 \<le> c \<and> c \<le> 0xD) \<or> c = 0x20 \<or> c = 0xA0 \<or> c = 0x1680 \<or>
      (0x2000 \<le> c \<and> c \<le> 0x200A) \<or> (0x2028 \<le> c \<and> c \<le> 0x2029) \<or> c = 0x202F \<or>
      c = 0x205F \<or> c = 0x3000 \<or> c = 0xFEFF)"

definition js_trim :: "jsstring \<Rightarrow> jsstring" where
  "js_trim s = rev (dropWhile is_space (rev (dropWhile is_space s)))"

definition is_digit :: "16 word \<Rightarrow> bool" where
  "is_digit c = (0x30 \<le> c \<and> c \<le> 0x39)"

text \<open>
  The regular expressions of the worker are anchored at both ends and are a sequence of
  character classes, each with a repetition range. A class is a list of inclusive
  ranges of code units; an item is a class with the least and the greatest number of
  repetitions (\<open>None\<close>: no upper bound).
\<close>

type_synonym char_class = "(16 word \<times> 16 word) list"

definition in_class :: "char_class \<Rightarrow> 16 word \<Rightarrow> bool" where
  "in_class cls c = list_ex (\<lambda>(lo, hi). lo \<le> c \<and> c \<le> hi) cls"

type_synonym regex = "(char_class \<times> nat \<times> nat option) list"

text \<open>
  \<open>/^...$/.test(s)\<close>: some split of \<open>s\<close> gives every item a run of its class whose
  length is in its range.
\<close>

primrec regex_test :: "regex \<Rightarrow> jsstring \<Rightarrow> bool" where
  "regex_test [] = (\<lambda>s. s = [])"
| "regex_test (item # items) = (\<lambda>s.
     (case item of (cls, lo, hi) \<Rightarrow>
        list_ex (\<lambda>k. list_all (in_class cls) (take k s) \<and> regex_test items (drop k s))
          [lo ..< Suc (case hi of None \<Rightarrow> length s | Some h \<Rightarrow> min h (length s))]))"

text \<open>\<open>/^@[a-zA-Z0-9_]{4,32}$/\<close>\<close>

definition telegram_regex :: regex where
  "telegram_regex =
     [([(0x40, 0x40)], 1, Some 1),
      ([(0x61, 0x7A), (0x41, 0x5A), (0x30, 0x39), (0x5F, 0x5F)], 4, Some 32)]"

text \<open>\<open>/^[0-9+\s()\-]+$/\<close>, with \<open>\s\<close> spelled out as in \<open>is_space\<close>.\<close>

definition phone_regex :: regex where
  "phone_regex =
     [([(0x30, 0x39), (0x2B, 0x2B),
        (0x9, 0xD), (0x20, 0x20), (0xA0, 0xA0), (0x1680, 0x1680), (0x2000, 0x200A),
        (0x2028, 0x2029), (0x202F, 0x202F), (0x205F, 0x205F), (0x3000, 0x3000),
        (0xFEFF, 0xFEFF),
        (0x28, 0x28), (0x29, 0x29), (0x2D, 0x2D)], 1, None)]"

text \<open>
  A run of decimal digits denotes an integer, and \<open>parseInt\<close> returns it as a
  JavaScript number: up to \<open>2^53\<close> that is the integer itself; a greater one is rounded
  to the nearest number with a mantissa of 53 bits, a tie going to the even mantissa;
  and what rounds to \<open>2^1024\<close> or more is \<open>Infinity\<close>, here \<open>None\<close>.
\<close>

definition digits_value :: "jsstring \<Rightarrow> nat" where
  "digits_value ds = foldl (\<lambda>a c. 10 * a + (unat c - 48)) 0 ds"

fun bit_length :: "nat \<Rightarrow> nat" where
  "bit_length n = (if n = 0 then 0 else Suc (bit_length (n div 2)))"

declare bit_length.simps [simp del]

definition round_double :: "nat \<Rightarrow> nat option" where
  "round_double n =
     (if n < 2 ^ 53 then Some n
      else
        (let e = bit_length n - 53;
             q = n div 2 ^ e;
             r = n mod 2 ^ e;
             half = 2 ^ (e - 1);
             m = (if r > half \<or> (r = half \<and> odd q) then q + 1 else q);
             v = m * 2 ^ e
         in if v \<ge> 2 ^ 1024 then None else Some v))"

text \<open>
  \<open>parseInt(s, 10)\<close> of a string: leading white space and one sign are skipped, the
  digits that follow are read, and the rest is ignored. Without a digit the result is
  \<open>NaN\<close>; otherwise it is the number of the digits with the sign, finite or infinite.
\<close>

datatype parsed = NotANumber | Finite int | Infinite

definition parseInt_string :: "jsstring \<Rightarrow> parsed" where
  "parseInt_string s =
     (let t = dropWhile is_space s;
          neg = (case t of [] \<Rightarrow> False | c # cs \<Rightarrow> c = 0x2D);
          u = (case t of [] \<Rightarrow> [] | c # cs \<Rightarrow> if c = 0x2D \<or> c = 0x2B then cs else t);
          ds = takeWhile is_digit u
      in if ds = [] then NotANumber
         else (case round_double (digits_value ds) of
                 None \<Rightarrow> Infinite
               | Some v \<Rightarrow> Finite (if neg then - int v else int v)))"

text \<open>
  The party size of a new booking, \<open>parseInt(session.people || "0", 10) || 0\<close>, as the
  store holds it: \<open>NaN\<close> and zero become 0 at once; an infinite number is written by
  \<open>JSON.stringify\<close> as \<open>null\<close>, which every reader of \<open>booking.people\<close> takes for 0
  (\<open>booking.people || "0"\<close>).
\<close>

definition people_number :: "jsstring option \<Rightarrow> int" where
  "people_number v =
     (case parseInt_string (or_else v (asc ''0'')) of
        NotANumber \<Rightarrow> 0 | Finite n \<Rightarrow> n | Infinite \<Rightarrow> 0)"

section \<open>Creating a booking\<close>

text \<open>
  The clock readings of one delivery: \<open>now\<close> of the message handler, \<open>Date.now()\<close> inside
  \<open>setState\<close>, and in \<open>generateBookingId\<close> and \<open>createBooking\<close> the day
  (\<open>toISOString().slice(0, 10)\<close>, ten characters \<open>YYYY-MM-DD\<close>), the timestamp of the id
  and \<open>createdAt\<close>. Times are milliseconds since 1970.
\<close>

record clock =
  c_now :: nat
  c_set :: nat
  c_today :: jsstring
  c_ts :: nat
  c_created :: nat

text \<open>
  The argument of \<open>createBooking\<close>. Both callers pass \<open>type\<close>, \<open>chatId\<close>, \<open>people\<close> and
  \<open>data\<close>, the event flow also \<open>nyEventId\<close>; no caller passes \<open>nyEventDate\<close>.
\<close>

record booking_request =
  r_type :: btype
  r_chatId :: int
  r_nyEventId :: "jsstring option"
  r_nyEventDate :: "jsstring option"
  r_people :: int
  r_data :: booking_data

definition event_part :: "booking_request \<Rightarrow> jsstring" where
  "event_part d = or_else (d_date (r_data d)) (or_else (r_nyEventDate d) (asc ''na''))"

definition generateBookingId :: "clock \<Rightarrow> booking_request \<Rightarrow> jsstring" where
  "generateBookingId c d =
     asc ''bk-'' @ event_part d @ asc ''-'' @ c_today c @ asc ''-'' @ show_nat (c_ts c)"

definition createBooking :: "clock \<Rightarrow> booking_request \<Rightarrow> world \<Rightarrow> booking \<times> world" where
  "createBooking c d w =
     (let booking = \<lparr> b_id = generateBookingId c d, b_type = r_type d, b_chatId = r_chatId d,
            b_status = StNew,
            b_nyEventId = (if truthy (r_nyEventId d) then r_nyEventId d else None),
            b_createdAt = c_created c, b_people = r_people d, b_data = r_data d \<rparr>
      in (booking, saveBooking booking w))"

section \<open>The session of a chat\<close>

text \<open>An incoming text message: the chat, the text and the sender, when present.\<close>

record message =
  msg_chat_id :: int
  msg_text :: "jsstring option"
  msg_from_id :: "int option"
  msg_from_username :: "jsstring option"

definition userKey :: "message \<Rightarrow> jsstring" where
  "userKey m = asc ''user:'' @ show_int (msg_chat_id m)"

text \<open>
  Reading the session: a missing entry is the empty session; an entry whose \<open>expiresAt\<close>
  is set, not zero and before \<open>now\<close> is deleted and replaced by the empty session.
\<close>

definition session_expired :: "nat \<Rightarrow> session \<Rightarrow> bool" where
  "session_expired now s =
     (case s_expiresAt s of None \<Rightarrow> False | Some t \<Rightarrow> t \<noteq> 0 \<and> now > t)"

definition load_session :: "clock \<Rightarrow> jsstring \<Rightarrow> world \<Rightarrow> session \<times> world" where
  "load_session c key w =
     (let session = (case STATE w key of None \<Rightarrow> empty_session | Some s \<Rightarrow> s)
      in if session_expired (c_now c) session
         then (empty_session, apply_effect (StateDelete key) w)
         else (session, w))"

definition setState :: "clock \<Rightarrow> jsstring \<Rightarrow> session \<Rightarrow> world \<Rightarrow> world" where
  "setState c key newState w =
     apply_effect (StatePut key (newState\<lparr> s_expiresAt := Some (c_set c + 600000) \<rparr>)) w"

definition clearState :: "jsstring \<Rightarrow> world \<Rightarrow> world" where
  "clearState key w = apply_effect (StateDelete key) w"

section \<open>Texts the visitor can send\<close>

text \<open>
  The button labels, by their code units: reset the request, main menu, excursions,
  schedule, how to get there, products, book an excursion, New Year events, summary of
  the events; the people labels 6 to 10 (with an en dash) and more than 11; and the word
  shown for a sender without a user name.
\<close>

definition txt_reset :: jsstring where
  "txt_reset =
    [0xD83D, 0xDD04, 0x20, 0x421, 0x431, 0x440, 0x43E, 0x441, 0x438, 0x442, 0x44C, 0x20,
     0x437, 0x430, 0x44F, 0x432, 0x43A, 0x443]"

definition txt_main_menu :: jsstring where
  "txt_main_menu =
    [0xD83C, 0xDFE1, 0x20, 0x413, 0x43B, 0x430, 0x432, 0x43D, 0x43E, 0x435, 0x20, 0x43C,
     0x435, 0x43D, 0x44E]"

definition txt_excursions :: jsstring where
  "txt_excursions =
    [0xD83D, 0xDC04, 0x20, 0x42D, 0x43A, 0x441, 0x43A, 0x443, 0x440, 0x441, 0x438,
     0x438]"

definition txt_schedule :: jsstring where
  "txt_schedule =
    [0xD83D, 0xDCC5, 0x20, 0x420, 0x430, 0x441, 0x43F, 0x438, 0x441, 0x430, 0x43D,
     0x438, 0x435]"

definition txt_route :: jsstring where
  "txt_route =
    [0xD83D, 0xDCCD, 0x20, 0x41A, 0x430, 0x43A, 0x20, 0x434, 0x43E, 0x431, 0x440, 0x430,
     0x442, 0x44C, 0x441, 0x44F]"

definition txt_products :: jsstring where
  "txt_products =
    [0xD83D, 0xDED2, 0x20, 0x41F, 0x440, 0x43E, 0x434, 0x443, 0x43A, 0x446, 0x438,
     0x44F]"

definition txt_book_excursion :: jsstring where
  "txt_book_excursion =
    [0xD83D, 0xDCC5, 0x20, 0x417, 0x430, 0x43F, 0x438, 0x441, 0x430, 0x442, 0x44C,
     0x441, 0x44F, 0x20, 0x43D, 0x430, 0x20, 0x44D, 0x43A, 0x441, 0x43A, 0x443, 0x440,
     0x441, 0x438, 0x44E]"

definition txt_ny_events :: jsstring where
  "txt_ny_events =
    [0x2744, 0x20, 0x41D, 0x43E, 0x432, 0x43E, 0x433, 0x43E, 0x434, 0x43D, 0x438, 0x435,
     0x20, 0x43C, 0x435, 0x440, 0x43E, 0x43F, 0x440, 0x438, 0x44F, 0x442, 0x438, 0x44F]"

definition txt_events_summary :: jsstring where
  "txt_events_summary =
    [0xD83D, 0xDCCA, 0x20, 0x421, 0x432, 0x43E, 0x434, 0x43A, 0x430, 0x20, 0x43F, 0x43E,
     0x20, 0x43C, 0x435, 0x440, 0x43E, 0x43F, 0x440, 0x438, 0x44F, 0x442, 0x438, 0x44F,
     0x43C]"

definition label_6_10 :: jsstring where
  "label_6_10 =
    [0x36, 0x2013, 0x31, 0x30]"

definition label_more_11 :: jsstring where
  "label_more_11 =
    [0x431, 0x43E, 0x43B, 0x435, 0x435, 0x20, 0x31, 0x31]"

definition txt_no_username :: jsstring where
  "txt_no_username =
    [0x43D, 0x435, 0x442]"

section \<open>The conversation, variant with the New Year events\<close>

text \<open>
  The message handler of the second variant of the worker (the one with the event
  catalog and the capacity counters). \<open>session\<close> is the session as read by
  \<open>load_session\<close>, \<open>key\<close> the key of the chat in \<open>STATE\<close>.
\<close>

definition startNyMenu :: "clock \<Rightarrow> jsstring \<Rightarrow> int \<Rightarrow> world \<Rightarrow> world" where
  "startNyMenu c key targetChatId w =
     sendMessage targetChatId ChooseEventText (Some WinterKeyboard)
       (setState c key (empty_session\<lparr> s_step := Some ny_choose \<rparr>) w)"

text \<open>
  An event was picked, by its label or by a deep link: a full event ends the flow, an
  open one starts the questions. \<open>base\<close> is the session the answers are added to.
\<close>

definition enter_event :: "clock \<Rightarrow> jsstring \<Rightarrow> int \<Rightarrow> keyboard \<Rightarrow> session \<Rightarrow> event \<Rightarrow> world \<Rightarrow> world" where
  "enter_event c key chatId mainKeyboard base ev w =
     (case getEventState (ev_id ev) w of ((k, st), w1) \<Rightarrow>
        if booked st \<ge> capacity st
        then clearState key (sendMessage chatId (EventClosedText ev) (Some mainKeyboard) w1)
        else sendMessage chatId (EventChosenText ev) (Some NoKeyboard)
               (setState c key
                  (base\<lparr> s_step := Some ny_name, s_nyEventId := Some (ev_id ev),
                         s_nyEventTitle := Some (ev_title ev),
                         s_nyEventDate := Some (ev_date ev) \<rparr>) w1))"

definition send_welcome :: "jsstring \<Rightarrow> int \<Rightarrow> keyboard \<Rightarrow> world \<Rightarrow> world" where
  "send_welcome key chatId mainKeyboard w =
     sendMessage chatId WelcomeText (Some mainKeyboard) (clearState key w)"

text \<open>\<open>/start\<close>, with or without a parameter, and the main menu button.\<close>

definition start_or_menu :: "clock \<Rightarrow> jsstring \<Rightarrow> int \<Rightarrow> keyboard \<Rightarrow> jsstring \<Rightarrow> world \<Rightarrow> world" where
  "start_or_menu c key chatId mainKeyboard text w =
     (if startsWith text (asc ''/start'') then
        (let param = index_opt (js_split 0x20 text) 1
         in if param = Some (asc ''ny-menu'') then startNyMenu c key chatId w
            else
              (case (if truthy param \<and> startsWith (tpl param) (asc ''ny-'')
                     then find_event param else None) of
                 Some ev \<Rightarrow> enter_event c key chatId mainKeyboard empty_session ev w
               | None \<Rightarrow> send_welcome key chatId mainKeyboard w))
      else send_welcome key chatId mainKeyboard w)"

definition ny_choose_step :: "clock \<Rightarrow> jsstring \<Rightarrow> int \<Rightarrow> keyboard \<Rightarrow> jsstring \<Rightarrow> session \<Rightarrow> world \<Rightarrow> world" where
  "ny_choose_step c key chatId mainKeyboard text session w =
     (case List.find (\<lambda>ev. ev_label ev = text) winterEvents of
        None \<Rightarrow> sendMessage chatId PickEventFromListText None w
      | Some chosen \<Rightarrow> enter_event c key chatId mainKeyboard session chosen w)"

text \<open>The notification of a new request, sent when \<open>ADMIN_CHAT_ID\<close> is set.\<close>

definition notify_admin :: "env \<Rightarrow> text_msg \<Rightarrow> booking \<Rightarrow> world \<Rightarrow> world" where
  "notify_admin e txt booking w =
     (if truthy (ADMIN_CHAT_ID e)
      then emit (SendAdminMessage (tpl (ADMIN_CHAT_ID e)) txt (AdminBookingKeyboard (b_id booking))) w
      else w)"

definition ny_contact_step :: "env \<Rightarrow> clock \<Rightarrow> message \<Rightarrow> keyboard \<Rightarrow> jsstring \<Rightarrow> session \<Rightarrow> world \<Rightarrow> world" where
  "ny_contact_step e c m mainKeyboard text session0 w =
     (let session = session0\<lparr> s_contact := Some text \<rparr>;
          peopleNum = people_number (s_people session);
          username = (if truthy (msg_from_username m)
                      then asc ''@'' @ tpl (msg_from_username m) else txt_no_username);
          bookingData = \<lparr> r_type = NyEvent, r_chatId = msg_chat_id m,
            r_nyEventId = s_nyEventId session, r_nyEventDate = None, r_people = peopleNum,
            r_data = \<lparr> d_name = s_name session, d_date = s_nyEventDate session, d_time = None,
              d_people = s_people session, d_contact = s_contact session,
              d_nyEventTitle = s_nyEventTitle session, d_username = Some username \<rparr> \<rparr>
      in case createBooking c bookingData w of (booking, w1) \<Rightarrow>
           clearState (userKey m)
             (sendMessage (msg_chat_id m) ThanksNyEventText (Some mainKeyboard)
                (notify_admin e (NewNyEventText booking session (Some username)) booking w1)))"

text \<open>The last step of the excursion flow in this variant: any text is the contact.\<close>

definition ex_contact_step_v2 :: "env \<Rightarrow> clock \<Rightarrow> message \<Rightarrow> keyboard \<Rightarrow> jsstring \<Rightarrow> session \<Rightarrow> world \<Rightarrow> world" where
  "ex_contact_step_v2 e c m mainKeyboard text session0 w =
     (let session = session0\<lparr> s_contact := Some text \<rparr>;
          peopleNum = people_number (s_people session);
          bookingData = \<lparr> r_type = Excursion, r_chatId = msg_chat_id m,
            r_nyEventId = None, r_nyEventDate = None, r_people = peopleNum,
            r_data = \<lparr> d_name = s_name session, d_date = s_date session,
              d_time = s_time session, d_people = s_people session,
              d_contact = s_contact session, d_nyEventTitle = None, d_username = None \<rparr> \<rparr>
      in case createBooking c bookingData w of (booking, w1) \<Rightarrow>
           clearState (userKey m)
             (sendMessage (msg_chat_id m) ThanksExcursionText (Some mainKeyboard)
                (notify_admin e (NewExcursionText booking session) booking w1)))"

definition dispatch_v2 :: "env \<Rightarrow> clock \<Rightarrow> message \<Rightarrow> session \<Rightarrow> world \<Rightarrow> world" where
  "dispatch_v2 e c m session w =
     (let chatId = msg_chat_id m;
          text = or_else (msg_text m) [];
          key = userKey m;
          isAdminUser = isAdminUserId e (msg_from_id m);
          mainKeyboard = MainKeyboard isAdminUser
      in
      if text = asc ''/events'' \<and> isAdminUser
      then sendMessage chatId ChooseDayText (Some AdminEventsMenuKeyboard) w
      else if text = txt_events_summary then
        (if \<not> isAdminUser then sendMessage chatId AdminOnlyText None w
         else sendMessage chatId ChooseDayText (Some AdminEventsMenuKeyboard) w)
      else if text = txt_reset
      then sendMessage chatId ResetDoneText (Some mainKeyboard) (clearState key w)
      else if startsWith text (asc ''/start'') \<or> text = txt_main_menu
      then start_or_menu c key chatId mainKeyboard text w
      else if text = txt_excursions
      then sendMessage chatId InfoExcursionsText (Some mainKeyboard) w
      else if text = txt_schedule
      then sendMessage chatId InfoScheduleText (Some mainKeyboard) w
      else if text = txt_route
      then sendMessage chatId InfoRouteText (Some mainKeyboard) w
      else if text = txt_products
      then sendMessage chatId InfoProductsText (Some mainKeyboard) w
      else if text = txt_ny_events then startNyMenu c key chatId w
      else if s_step session = Some ny_choose
      then ny_choose_step c key chatId mainKeyboard text session w
      else if s_step session = Some ny_name
      then sendMessage chatId AskNyPeopleText (Some NoKeyboard)
             (setState c key (session\<lparr> s_name := Some text, s_step := Some ny_people \<rparr>) w)
      else if s_step session = Some ny_people
      then sendMessage chatId AskNyContactText (Some NoKeyboard)
             (setState c key (session\<lparr> s_people := Some text, s_step := Some ny_contact \<rparr>) w)
      else if s_step session = Some ny_contact
      then ny_contact_step e c m mainKeyboard text session w
      else if text = txt_book_excursion
      then sendMessage chatId AskNameText (Some NoKeyboard)
             (setState c key (empty_session\<lparr> s_step := Some ex_name \<rparr>) w)
      else if s_step session = Some ex_name
      then sendMessage chatId AskDateText (Some NoKeyboard)
             (setState c key (session\<lparr> s_name := Some text, s_step := Some ex_date \<rparr>) w)
      else if s_step session = Some ex_date
      then sendMessage chatId AskTimeText (Some NoKeyboard)
             (setState c key (session\<lparr> s_date := Some text, s_step := Some ex_time \<rparr>) w)
      else if s_step session = Some ex_time
      then sendMessage chatId AskPeopleText (Some NoKeyboard)
             (setState c key (session\<lparr> s_time := Some text, s_step := Some ex_people \<rparr>) w)
      else if s_step session = Some ex_people
      then sendMessage chatId AskContactText (Some NoKeyboard)
             (setState c key (session\<lparr> s_people := Some text, s_step := Some ex_contact \<rparr>) w)
      else if s_step session = Some ex_contact
      then ex_contact_step_v2 e c m mainKeyboard text session w
      else sendMessage chatId FallbackText (Some mainKeyboard) w)"

definition on_message_v2 :: "env \<Rightarrow> clock \<Rightarrow> message \<Rightarrow> world \<Rightarrow> world" where
  "on_message_v2 e c m w =
     (case load_session c (userKey m) w of (session, w1) \<Rightarrow> dispatch_v2 e c m session w1)"

text \<open>One delivery: a callback query is handled first, then a message; anything else is ignored.\<close>

record update =
  u_callback_query :: "callback_query option"
  u_message :: "message option"

definition on_update_v2 :: "env \<Rightarrow> clock \<Rightarrow> update \<Rightarrow> world \<Rightarrow> response \<times> world" where
  "on_update_v2 e c u w =
     (case u_callback_query u of
        Some cq \<Rightarrow> on_callback_query e cq w
      | None \<Rightarrow>
          (case u_message u of
             None \<Rightarrow> (ResponseOK, w)
           | Some m \<Rightarrow> (ResponseOK, on_message_v2 e c m w)))"

section \<open>The conversation, variant with validated answers\<close>

text \<open>
  The message handler of the first variant of the worker: no events, but the people
  step takes only the labels of its keyboard and the contact step checks the contact.
  Its bookings have no \<open>nyEventId\<close>. Its handler of the operator's buttons, which
  confirms and declines without counters, is not part of this model.
\<close>

text \<open>\<open>new Set(["1", "2", "3", "4", "5", "6", "6-10" with an en dash, more than 11])\<close>\<close>

definition allowed_people :: "jsstring list" where
  "allowed_people = [asc ''1'', asc ''2'', asc ''3'', asc ''4'', asc ''5'', asc ''6'',
     label_6_10, label_more_11]"

definition stored_people :: "jsstring \<Rightarrow> jsstring" where
  "stored_people text =
     (if text = label_6_10 then asc ''6-10''
      else if text = label_more_11 then asc ''11+'' else text)"

definition ex_people_step_v1 :: "clock \<Rightarrow> jsstring \<Rightarrow> int \<Rightarrow> jsstring \<Rightarrow> session \<Rightarrow> world \<Rightarrow> world" where
  "ex_people_step_v1 c key chatId text session w =
     (if text \<notin> set allowed_people
      then sendMessage chatId PickPeopleButtonText (Some ExPeopleKeyboard) w
      else sendMessage chatId AskContactText (Some FlowKeyboard)
             (setState c key
                (session\<lparr> s_people := Some (stored_people text), s_step := Some ex_contact \<rparr>) w))"

text \<open>The two checks of the contact, on the trimmed text.\<close>

definition isValidTelegram :: "jsstring \<Rightarrow> bool" where
  "isValidTelegram contact = regex_test telegram_regex contact"

definition isValidPhone :: "jsstring \<Rightarrow> bool" where
  "isValidPhone contact =
     (let isPhoneLike = regex_test phone_regex contact;
          digitsOnly = filter is_digit contact
      in isPhoneLike \<and> length digitsOnly \<ge> 10 \<and> length digitsOnly \<le> 15)"

definition ex_contact_step_v1 :: "env \<Rightarrow> clock \<Rightarrow> message \<Rightarrow> jsstring \<Rightarrow> session \<Rightarrow> world \<Rightarrow> world" where
  "ex_contact_step_v1 e c m text session0 w =
     (let contact = js_trim text
      in if \<not> isValidTelegram contact \<and> \<not> isValidPhone contact
         then sendMessage (msg_chat_id m) AskContactText (Some FlowKeyboard)
                (sendMessage (msg_chat_id m) BadContactText (Some FlowKeyboard) w)
         else
           (let session = session0\<lparr> s_contact := Some contact \<rparr>;
                peopleNum = people_number (s_people session);
                bookingData = \<lparr> r_type = Excursion, r_chatId = msg_chat_id m,
                  r_nyEventId = None, r_nyEventDate = None, r_people = peopleNum,
                  r_data = \<lparr> d_name = s_name session, d_date = s_date session,
                    d_time = s_time session, d_people = s_people session,
                    d_contact = s_contact session, d_nyEventTitle = None,
                    d_username = None \<rparr> \<rparr>
            in case createBooking c bookingData w of (booking, w1) \<Rightarrow>
                 clearState (userKey m)
                   (sendMessage (msg_chat_id m) ThanksExcursionText (Some MainKeyboardPlain)
                      (notify_admin e (NewExcursionText booking session) booking w1))))"

definition dispatch_v1 :: "env \<Rightarrow> clock \<Rightarrow> message \<Rightarrow> session \<Rightarrow> world \<Rightarrow> world" where
  "dispatch_v1 e c m session w =
     (let chatId = msg_chat_id m;
          text = or_else (msg_text m) [];
          key = userKey m;
          mainKeyboard = MainKeyboardPlain
      in
      if text = txt_reset
      then sendMessage chatId ResetDoneText (Some mainKeyboard) (clearState key w)
      else if startsWith text (asc ''/start'') \<or> text = txt_main_menu
      then send_welcome key chatId mainKeyboard w
      else if text = txt_excursions
      then sendMessage chatId InfoExcursionsText (Some mainKeyboard) w
      else if text = txt_schedule
      then sendMessage chatId InfoScheduleText (Some mainKeyboard) w
      else if text = txt_route
      then sendMessage chatId InfoRouteText (Some mainKeyboard) w
      else if text = txt_products
      then sendMessage chatId InfoProductsText (Some mainKeyboard) w
      else if text = txt_book_excursion
      then sendMessage chatId AskNameWithHintText (Some FlowKeyboard)
             (setState c key (empty_session\<lparr> s_step := Some ex_name \<rparr>) w)
      else if s_step session = Some ex_name
      then sendMessage chatId AskDateText (Some FlowKeyboard)
             (setState c key (session\<lparr> s_name := Some text, s_step := Some ex_date \<rparr>) w)
      else if s_step session = Some ex_date
      then sendMessage chatId AskTimeText (Some FlowKeyboard)
             (setState c key (session\<lparr> s_date := Some text, s_step := Some ex_time \<rparr>) w)
      else if s_step session = Some ex_time
      then sendMessage chatId AskPeopleText (Some ExPeopleKeyboard)
             (setState c key (session\<lparr> s_time := Some text, s_step := Some ex_people \<rparr>) w)
      else if s_step session = Some ex_people
      then ex_people_step_v1 c key chatId text session w
      else if s_step session = Some ex_contact
      then ex_contact_step_v1 e c m text session w
      else sendMessage chatId FallbackText (Some mainKeyboard) w)"

definition on_message_v1 :: "env \<Rightarrow> clock \<Rightarrow> message \<Rightarrow> world \<Rightarrow> world" where
  "on_message_v1 e c m w =
     (case load_session c (userKey m) w of (session, w1) \<Rightarrow> dispatch_v1 e c m session w1)"

section \<open>Properties of the stores\<close>

text \<open>
  Every booking the worker stores sits under the key made of its own id, and the id is
  not empty (\<open>createBooking\<close> makes it, starting with \<open>bk-\<close>).
\<close>

definition wf_bookings :: "world \<Rightarrow> bool" where
  "wf_bookings w =
     (\<forall>k b. BOOKINGS w k = Some b \<longrightarrow> k = asc ''booking:'' @ b_id b \<and> b_id b \<noteq> [])"

text \<open>The invariant of the capacity counters.\<close>

definition counter_ok :: "event_state \<Rightarrow> bool" where
  "counter_ok st = (0 \<le> booked st \<and> booked st \<le> capacity st)"

definition counters_ok :: "world \<Rightarrow> bool" where
  "counters_ok w = (\<forall>k st. EVENTS w k = Some st \<longrightarrow> counter_ok st)"


text \<open>The effects a step added to the trace.\<close>

definition new_effects :: "world \<Rightarrow> world \<Rightarrow> effect list" where
  "new_effects w w' = drop (length (trace w)) (trace w')"




section \<open>Sample data\<close>

text \<open>
  A configuration with operator 1001, a pending booking of two seats for the event of
  3 January made by chat 555, and the buttons the operator and a stranger press.
\<close>

definition sample_env :: env where
  "sample_env = \<lparr> ADMIN_USER_ID = Some (asc ''1001''), ADMIN_CHAT_ID = Some (asc ''1001'') \<rparr>"

definition sample_id :: jsstring where
  "sample_id = asc ''bk-03.01-2026-01-02-1767312000000''"

definition sample_booking :: booking where
  "sample_booking = \<lparr> b_id = sample_id, b_type = NyEvent, b_chatId = 555, b_status = StNew,
     b_nyEventId = Some (asc ''ny-03''), b_createdAt = 1767312000000, b_people = 2,
     b_data = \<lparr> d_name = Some (asc ''Anna''), d_date = Some (asc ''03.01''), d_time = None,
       d_people = Some (asc ''2''), d_contact = Some (asc ''@anna_farm''),
       d_nyEventTitle = None, d_username = Some (asc ''@anna_farm'') \<rparr> \<rparr>"

definition sample_key :: jsstring where
  "sample_key = asc ''booking:'' @ sample_id"

definition sample_world :: "status \<Rightarrow> world" where
  "sample_world st = \<lparr> BOOKINGS = [sample_key \<mapsto> sample_booking\<lparr> b_status := st \<rparr>],
     EVENTS = Map.empty, STATE = Map.empty, trace = [] \<rparr>"

definition sample_query :: "string \<Rightarrow> int \<Rightarrow> callback_query" where
  "sample_query action sender = \<lparr> cq_id = asc ''cb-1'', cq_from = Some sender,
     cq_data = Some (asc action @ asc '':'' @ sample_id),
     cq_message = Some \<lparr> m_chat_id = 1001, m_message_id = 77 \<rparr> \<rparr>"

definition empty_world :: world where
  "empty_world = \<lparr> BOOKINGS = Map.empty, EVENTS = Map.empty, STATE = Map.empty, trace = [] \<rparr>"

text \<open>
  A visitor in chat 555, the readings of the clock on 2 January 2026, a session in the
  middle of the excursion flow that is still alive at that time, and the request the
  excursion flow would hand to \<open>createBooking\<close> for a visitor of a given name.
\<close>

definition sample_message :: "jsstring \<Rightarrow> message" where
  "sample_message text = \<lparr> msg_chat_id = 555, msg_text = Some text, msg_from_id = Some 555,
     msg_from_username = Some (asc ''anna_farm'') \<rparr>"

definition sample_clock :: clock where
  "sample_clock = \<lparr> c_now = 1767312000000, c_set = 1767312000005,
     c_today = asc ''2026-01-02'', c_ts = 1767312000007, c_created = 1767312000007 \<rparr>"

definition sample_session :: "step \<Rightarrow> nat \<Rightarrow> session" where
  "sample_session st written = empty_session\<lparr> s_step := Some st, s_name := Some (asc ''Anna''),
     s_date := Some (asc ''03.01''), s_time := Some (asc ''11:30''), s_people := Some (asc ''2''),
     s_expiresAt := Some (written + 600000) \<rparr>"

definition session_world :: "session \<Rightarrow> world" where
  "session_world s = empty_world\<lparr> STATE := [asc ''user:555'' \<mapsto> s] \<rparr>"

definition sample_request :: "string \<Rightarrow> booking_request" where
  "sample_request name = \<lparr> r_type = Excursion, r_chatId = 555, r_nyEventId = None,
     r_nyEventDate = None, r_people = 2,
     r_data = \<lparr> d_name = Some (asc name), d_date = Some (asc ''03.01''),
       d_time = Some (asc ''11:30''), d_people = Some (asc ''2''),
       d_contact = Some (asc ''@anna_farm''), d_nyEventTitle = None, d_username = None \<rparr> \<rparr>"

text \<open>A phone number typed on two lines.\<close>

definition two_line_phone :: jsstring where
  "two_line_phone = asc ''8 999'' @ [0xA] @ asc ''123-45-67''"

section \<open>Notions used in the properties of the conversation\<close>

text \<open>A session write that sets \<open>expiresAt\<close> ten minutes after the clock of \<open>setState\<close>.\<close>

definition fresh_put :: "clock \<Rightarrow> effect \<Rightarrow> bool" where
  "fresh_put c e =
     (case e of StatePut k s \<Rightarrow> s_expiresAt s = Some (c_set c + 600000) | _ \<Rightarrow> True)"

text \<open>
  The world \<open>w'\<close> comes from \<open>w\<close> by effects that all satisfy \<open>P\<close>: it is \<open>w\<close> with
  these effects applied in order, to the stores and to the trace.
\<close>

definition extends_with :: "(effect \<Rightarrow> bool) \<Rightarrow> world \<Rightarrow> world \<Rightarrow> bool" where
  "extends_with P w w' = (\<exists>es. w' = replay es w \<and> list_all P es)"

text \<open>
  The texts the first variant handles before it looks at the step of the session: the
  reset and menu buttons, \<open>/start\<close>, the four information buttons and the button that
  starts the excursion flow.
\<close>

definition menu_text_v1 :: "jsstring \<Rightarrow> bool" where
  "menu_text_v1 text =
     (text = txt_reset \<or> startsWith text (asc ''/start'') \<or> text = txt_main_menu \<or>
      text = txt_excursions \<or> text = txt_schedule \<or> text = txt_route \<or>
      text = txt_products \<or> text = txt_book_excursion)"

text \<open>
  The texts the second variant handles before it looks at an excursion step of the
  session: \<open>/events\<close> from the operator, the summary button, the texts above and the
  button of the New Year events.
\<close>

definition menu_text_v2 :: "env \<Rightarrow> message \<Rightarrow> jsstring \<Rightarrow> bool" where
  "menu_text_v2 e m text =
     ((text = asc ''/events'' \<and> isAdminUserId e (msg_from_id m)) \<or>
      text = txt_events_summary \<or> text = txt_reset \<or> startsWith text (asc ''/start'') \<or>
      text = txt_main_menu \<or> text = txt_excursions \<or> text = txt_schedule \<or>
      text = txt_route \<or> text = txt_products \<or> text = txt_ny_events \<or>
      text = txt_book_excursion)"

text \<open>
  The two contact formats in the words of the specification: a handle is an at sign
  followed by 4 to 32 letters, digits or underscores; a phone has only digits, plus
  signs, spaces, parentheses and hyphens, and 10 to 15 digits.
\<close>

definition handle_char :: "16 word \<Rightarrow> bool" where
  "handle_char c =
     ((0x61 \<le> c \<and> c \<le> 0x7A) \<or> (0x41 \<le> c \<and> c \<le> 0x5A) \<or> is_digit c \<or> c = 0x5F)"

definition spec_handle :: "jsstring \<Rightarrow> bool" where
  "spec_handle s =
     (case s of [] \<Rightarrow> False
      | c # cs \<Rightarrow> c = 0x40 \<and> 4 \<le> length cs \<and> length cs \<le> 32 \<and> list_all handle_char cs)"

definition spec_phone_char :: "16 word \<Rightarrow> bool" where
  "spec_phone_char c =
     (is_digit c \<or> c = 0x2B \<or> c = 0x20 \<or> c = 0x28 \<or> c = 0x29 \<or> c = 0x2D)"

definition spec_phone :: "jsstring \<Rightarrow> bool" where
  "spec_phone s =
     (list_all spec_phone_char s \<and> 10 \<le> length (filter is_digit s) \<and>
      length (filter is_digit s) \<le> 15)"

text \<open>The phone format with any white space in the place of the space.\<close>

definition phone_char :: "16 word \<Rightarrow> bool" where
  "phone_char c =
     (is_digit c \<or> c = 0x2B \<or> is_space c \<or> c = 0x28 \<or> c = 0x29 \<or> c = 0x2D)"

definition phone_shape :: "jsstring \<Rightarrow> bool" where
  "phone_shape s =
     (list_all phone_char s \<and> 10 \<le> length (filter is_digit s) \<and>
      length (filter is_digit s) \<le> 15)"


section \<open>Helper lemmas\<close>

lemma EVENTS_emit [simp]: "EVENTS (emit e w) = EVENTS w"
  and BOOKINGS_emit [simp]: "BOOKINGS (emit e w) = BOOKINGS w"
  and STATE_emit [simp]: "STATE (emit e w) = STATE w"
  and trace_emit [simp]: "trace (emit e w) = trace w @ [e]"
  by (simp_all add: emit_def)

lemma tg_simps [simp]:
  "sendMessage c t k w = emit (SendMessage c t k) w"
  "editMessageText c m t w = emit (EditMessageText c m t) w"
  "answerCallbackQuery i n w = emit (AnswerCallbackQuery i n) w"
  by (simp_all add: sendMessage_def editMessageText_def answerCallbackQuery_def)

lemma EVENTS_saveBooking [simp]: "EVENTS (saveBooking b w) = EVENTS w"
  by (simp add: saveBooking_def)

lemma STATE_saveBooking [simp]: "STATE (saveBooking b w) = STATE w"
  by (simp add: saveBooking_def)

lemma edit_admin_message_stores [simp]:
  "EVENTS (edit_admin_message m t w) = EVENTS w"
  "BOOKINGS (edit_admin_message m t w) = BOOKINGS w"
  "STATE (edit_admin_message m t w) = STATE w"
  by (simp_all add: edit_admin_message_def split: option.splits)

lemma counters_ok_emit [simp]: "counters_ok (emit e w) = counters_ok w"
  by (simp add: counters_ok_def)





lemma counters_ok_saveBooking [simp]: "counters_ok (saveBooking b w) = counters_ok w"
  by (simp add: counters_ok_def)

lemma counters_ok_edit [simp]: "counters_ok (edit_admin_message m t w) = counters_ok w"
  by (simp add: counters_ok_def)






subsection \<open>Evaluation on the sample data\<close>

lemma sample_parts:
  "callback_action (sample_query ''confirm'' n) = Some (asc ''confirm'')"
  "callback_action (sample_query ''cancel'' n) = Some (asc ''cancel'')"
  "callback_bookingId (sample_query ''confirm'' n) = Some sample_id"
  "callback_bookingId (sample_query ''cancel'' n) = Some sample_id"
  by (simp_all add: callback_action_def callback_bookingId_def callback_parts_def sample_query_def
      or_else_def asc_def sample_id_def)

lemma sample_query_sel:
  "cq_id (sample_query a n) = asc ''cb-1''"
  "cq_from (sample_query a n) = Some n"
  "cq_message (sample_query a n) = Some \<lparr> m_chat_id = 1001, m_message_id = 77 \<rparr>"
  by (simp_all add: sample_query_def)

lemmas eval_defs = handleAdminBookingAction_def reserve_seats_def getBooking_def getEventState_def
  saveEventState_def saveBooking_def edit_admin_message_def booking_event_def find_event_def
  parseInt_number_def truthy_def tpl_def sample_world_def sample_booking_def sample_key_def
  sample_query_sel sample_parts Let_def

lemma sample_id_ne: "sample_id \<noteq> []" by (simp add: sample_id_def asc_def)

lemma wf_sample: "wf_bookings (sample_world st)"
  by (auto simp: wf_bookings_def sample_world_def sample_key_def sample_booking_def sample_id_ne
      split: if_splits)

lemma sample_admin: "isAdminUserId sample_env (Some 1001)" "\<not> isAdminUserId sample_env (Some 7)"
  by (simp_all add: isAdminUserId_def sample_env_def truthy_def tpl_def string_of_id_def show_int_def
     show_nat.simps asc_def digit_char_def)

subsection \<open>Repeating an action\<close>

lemma getEventState_again:
  assumes "getEventState i w = ((key, st), w1)" "EVENTS v = EVENTS w1"
  shows "getEventState i v = ((key, st), v)"
  using assms by (auto simp: getEventState_def Let_def split: option.splits)

lemma getEventState_BOOKINGS:
  assumes "getEventState i w = ((key, st), w1)"
  shows "BOOKINGS w1 = BOOKINGS w"
  using assms by (auto simp: getEventState_def Let_def split: option.splits)

lemma reserve_seats_Return:
  assumes "reserve_seats c b w = Return w1"
  shows "BOOKINGS w1 = BOOKINGS w \<and>
    (\<forall>v c2. EVENTS v = EVENTS w1 \<longrightarrow>
       (\<exists>n. reserve_seats c2 b v = Return (emit (AnswerCallbackQuery c2 n) v)))"
proof (cases "b_type b = NyEvent \<and> truthy (b_nyEventId b)")
  case False
  with assms show ?thesis by (simp add: reserve_seats_def)
next
  case True
  obtain key st wa where g: "getEventState (tpl (b_nyEventId b)) w = ((key, st), wa)"
    by (metis prod.exhaust)
  from assms True g have ev: "EVENTS w1 = EVENTS wa" and bk: "BOOKINGS w1 = BOOKINGS wa"
    by (auto simp: reserve_seats_def Let_def split: if_splits)
  have "\<exists>n. reserve_seats c2 b v = Return (emit (AnswerCallbackQuery c2 n) v)"
    if "EVENTS v = EVENTS w1" for v c2
  proof -
    from that ev have "getEventState (tpl (b_nyEventId b)) v = ((key, st), v)"
      by (intro getEventState_again [OF g]) simp
    with assms True g show ?thesis
      by (auto simp: reserve_seats_def Let_def split: if_splits)
  qed
  with bk getEventState_BOOKINGS [OF g] show ?thesis by simp
qed

lemma reserve_seats_Continue:
  assumes "reserve_seats c b w = Continue w1"
  shows "BOOKINGS w1 = BOOKINGS w"
proof (cases "b_type b = NyEvent \<and> truthy (b_nyEventId b)")
  case False
  with assms show ?thesis by (auto simp: reserve_seats_def)
next
  case True
  obtain key st wa where g: "getEventState (tpl (b_nyEventId b)) w = ((key, st), wa)"
    by (metis prod.exhaust)
  from assms True g have "BOOKINGS w1 = BOOKINGS wa"
    by (auto simp: reserve_seats_def Let_def saveEventState_def split: if_splits)
  with getEventState_BOOKINGS [OF g] show ?thesis by simp
qed

lemma wf_bookings_key:
  "wf_bookings w \<Longrightarrow> getBooking i w = Some b \<Longrightarrow>
     asc ''booking:'' @ b_id b = asc ''booking:'' @ tpl i \<and> b_id b \<noteq> []"
  by (auto simp: wf_bookings_def getBooking_def)

lemma new_effects_emit [simp]:
  "new_effects w (w\<lparr> trace := trace w @ es \<rparr>) = es"
  by (simp add: new_effects_def)

lemma world_upd_trace:
  "trace (v\<lparr> BOOKINGS := x \<rparr>) = trace v" "trace (v\<lparr> EVENTS := y \<rparr>) = trace v"
  by simp_all




subsection \<open>Decimal rendering and the booking id\<close>

lemma unat_digit_char: "d < 10 \<Longrightarrow> unat (digit_char d) = 48 + d"
  unfolding digit_char_def by (simp only: unat_of_nat) simp

lemma is_digit_digit_char: "d < 10 \<Longrightarrow> is_digit (digit_char d)"
  by (simp add: is_digit_def word_le_nat_alt unat_digit_char)

lemma digits_value_snoc: "digits_value (xs @ [c]) = 10 * digits_value xs + (unat c - 48)"
  by (simp add: digits_value_def)

lemma digits_value_show_nat: "digits_value (show_nat n) = n"
proof (induction n rule: show_nat.induct)
  case (1 n)
  show ?case
  proof (cases "n < 10")
    case True
    then show ?thesis
      by (subst show_nat.simps) (simp add: digits_value_def unat_digit_char)
  next
    case False
    with 1 show ?thesis
      by (subst show_nat.simps) (simp add: digits_value_snoc unat_digit_char)
  qed
qed

lemma show_nat_inj: "show_nat n = show_nat m \<Longrightarrow> n = m"
  by (metis digits_value_show_nat)

lemma show_nat_digits: "c \<in> set (show_nat n) \<Longrightarrow> is_digit c"
proof (induction n rule: show_nat.induct)
  case (1 n)
  show ?case
  proof (cases "n < 10")
    case True
    with "1.prems" show ?thesis
      by (subst (asm) show_nat.simps) (simp add: is_digit_digit_char)
  next
    case False
    with 1 show ?thesis
      by (subst (asm) (2) show_nat.simps) (auto simp: is_digit_digit_char)
  qed
qed

lemma hyphen_not_in_show_nat: "0x2D \<notin> set (show_nat n)"
  using show_nat_digits [of "0x2D" n] by (auto simp: is_digit_def)

lemma split_at_first:
  "h \<notin> set a \<Longrightarrow> h \<notin> set b \<Longrightarrow> a @ h # x = b @ h # y \<Longrightarrow> a = b \<and> x = y"
proof (induction a arbitrary: b)
  case Nil
  then show ?case by (cases b) auto
next
  case (Cons c a)
  then show ?case by (cases b) auto
qed

lemma split_at_last:
  assumes "xs @ h # ds = ys @ h # es" "h \<notin> set ds" "h \<notin> set es"
  shows "xs = ys \<and> ds = es"
proof -
  from assms(1) have "rev (xs @ h # ds) = rev (ys @ h # es)" by simp
  then have "rev ds @ h # rev xs = rev es @ h # rev ys" by simp
  with assms(2,3) have "rev ds = rev es \<and> rev xs = rev ys"
    by (intro split_at_first) simp_all
  then show ?thesis by simp
qed

subsection \<open>Effects of the message handlers\<close>

lemma trace_apply_effect [simp]: "trace (apply_effect e v) = trace v @ [e]"
  by (cases e) simp_all

lemma replay_snoc: "replay (es @ [e]) w = apply_effect e (replay es w)"
  by (simp add: replay_def)

lemma trace_replay: "trace (replay es w) = trace w @ es"
  by (induction es arbitrary: w) (simp_all add: replay_def)

lemma ext_refl: "extends_with P w w"
  unfolding extends_with_def by (rule exI [of _ "[]"]) (simp add: replay_def)

lemma ext_apply:
  assumes "extends_with P w v" "P e"
  shows "extends_with P w (apply_effect e v)"
proof -
  from assms(1) obtain es where es: "v = replay es w" "list_all P es"
    by (auto simp: extends_with_def)
  with assms(2) have "apply_effect e v = replay (es @ [e]) w \<and> list_all P (es @ [e])"
    by (simp add: replay_snoc)
  then show ?thesis unfolding extends_with_def by blast
qed

lemma ext_emit:
  "extends_with P w v \<Longrightarrow> P e \<Longrightarrow> apply_effect e v = emit e v \<Longrightarrow> extends_with P w (emit e v)"
  by (metis ext_apply)

lemma fresh_put_simps [simp]:
  "fresh_put c (StatePut k s) = (s_expiresAt s = Some (c_set c + 600000))"
  "fresh_put c (StateDelete k)" "fresh_put c (BookingsPut k b)" "fresh_put c (EventsPut k st)"
  "fresh_put c (SendMessage i t kb)" "fresh_put c (SendAdminMessage a t kb2)"
  "fresh_put c (EditMessageText i j t)" "fresh_put c (AnswerCallbackQuery q n)"
  by (simp_all add: fresh_put_def)

lemma ext_setState:
  "extends_with (fresh_put c) w v \<Longrightarrow> extends_with (fresh_put c) w (setState c key s v)"
  by (simp add: setState_def ext_apply del: apply_effect.simps)

lemma ext_clearState:
  "extends_with (fresh_put c) w v \<Longrightarrow> extends_with (fresh_put c) w (clearState key v)"
  by (simp add: clearState_def ext_apply del: apply_effect.simps)

lemma ext_send:
  "extends_with (fresh_put c) w v \<Longrightarrow> extends_with (fresh_put c) w (emit (SendMessage i t kb) v)"
  by (simp add: ext_emit)

lemma ext_saveBooking:
  "extends_with (fresh_put c) w v \<Longrightarrow> extends_with (fresh_put c) w (saveBooking b v)"
  by (simp add: saveBooking_def ext_apply del: apply_effect.simps)

lemma ext_getEventState:
  "extends_with (fresh_put c) w v \<Longrightarrow> getEventState i v = (r, v1) \<Longrightarrow> extends_with (fresh_put c) w v1"
  by (auto simp: getEventState_def Let_def ext_apply simp del: apply_effect.simps split: option.splits)

lemma ext_createBooking:
  "extends_with (fresh_put c) w v \<Longrightarrow> createBooking c' d v = (b, v1) \<Longrightarrow> extends_with (fresh_put c) w v1"
  by (auto simp: createBooking_def Let_def ext_saveBooking)

lemma ext_notify_admin:
  "extends_with (fresh_put c) w v \<Longrightarrow> extends_with (fresh_put c) w (notify_admin e t b v)"
  by (simp add: notify_admin_def ext_emit)

lemma ext_enter_event:
  assumes "extends_with (fresh_put c) w v"
  shows "extends_with (fresh_put c) w (enter_event c key chatId kb base ev v)"
proof -
  obtain r v1 where g: "getEventState (ev_id ev) v = (r, v1)" by (metis prod.exhaust)
  obtain k st where r: "r = (k, st)" by (metis prod.exhaust)
  from ext_getEventState [OF assms g] g r show ?thesis
    by (simp add: enter_event_def ext_setState ext_clearState ext_send)
qed

lemma ext_startNyMenu:
  "extends_with (fresh_put c) w v \<Longrightarrow> extends_with (fresh_put c) w (startNyMenu c key i v)"
  by (simp add: startNyMenu_def ext_setState ext_send)

lemma ext_send_welcome:
  "extends_with (fresh_put c) w v \<Longrightarrow> extends_with (fresh_put c) w (send_welcome key i kb v)"
  by (simp add: send_welcome_def ext_clearState ext_send)

lemma ext_start_or_menu:
  "extends_with (fresh_put c) w v \<Longrightarrow> extends_with (fresh_put c) w (start_or_menu c key i kb t v)"
  by (simp add: start_or_menu_def Let_def ext_startNyMenu ext_send_welcome ext_enter_event
      split: option.splits)

lemma ext_ny_choose_step:
  "extends_with (fresh_put c) w v \<Longrightarrow> extends_with (fresh_put c) w (ny_choose_step c key i kb t s v)"
  by (simp add: ny_choose_step_def ext_enter_event ext_send split: option.splits)

lemma ext_ny_contact_step:
  assumes "extends_with (fresh_put c) w v"
  shows "extends_with (fresh_put c) w (ny_contact_step e c m kb t s v)"
proof -
  have "extends_with (fresh_put c) w (snd (createBooking c d v))" for d
    using ext_createBooking [OF assms] by (metis prod.collapse)
  then show ?thesis
    by (simp add: ny_contact_step_def Let_def split_beta ext_clearState ext_send ext_notify_admin)
qed

lemma ext_ex_contact_step_v2:
  assumes "extends_with (fresh_put c) w v"
  shows "extends_with (fresh_put c) w (ex_contact_step_v2 e c m kb t s v)"
proof -
  have "extends_with (fresh_put c) w (snd (createBooking c d v))" for d
    using ext_createBooking [OF assms] by (metis prod.collapse)
  then show ?thesis
    by (simp add: ex_contact_step_v2_def Let_def split_beta ext_clearState ext_send ext_notify_admin)
qed

lemmas ext_steps = ext_setState ext_clearState ext_send ext_start_or_menu ext_startNyMenu
  ext_ny_choose_step ext_ny_contact_step ext_ex_contact_step_v2 ext_send_welcome

lemma ext_dispatch_v2:
  "extends_with (fresh_put c) w v \<Longrightarrow> extends_with (fresh_put c) w (dispatch_v2 e c m s v)"
  by (simp add: dispatch_v2_def Let_def ext_steps)

lemma ext_load_session:
  "extends_with (fresh_put c) w v \<Longrightarrow> load_session c key v = (s, v1) \<Longrightarrow> extends_with (fresh_put c) w v1"
  by (auto simp: load_session_def Let_def ext_apply simp del: apply_effect.simps split: if_splits)

lemma ext_on_message_v2: "extends_with (fresh_put c) w (on_message_v2 e c m w)"
proof -
  obtain s v1 where l: "load_session c (userKey m) w = (s, v1)" by (metis prod.exhaust)
  from ext_load_session [OF ext_refl l] l show ?thesis
    by (simp add: on_message_v2_def ext_dispatch_v2)
qed

lemma ext_ex_people_step_v1:
  "extends_with (fresh_put c) w v \<Longrightarrow> extends_with (fresh_put c) w (ex_people_step_v1 c key i t s v)"
  by (simp add: ex_people_step_v1_def ext_setState ext_send)

lemma ext_ex_contact_step_v1:
  assumes "extends_with (fresh_put c) w v"
  shows "extends_with (fresh_put c) w (ex_contact_step_v1 e c m t s v)"
proof -
  have "extends_with (fresh_put c) w (snd (createBooking c d v))" for d
    using ext_createBooking [OF assms] by (metis prod.collapse)
  then show ?thesis
    using assms
    by (simp add: ex_contact_step_v1_def Let_def split_beta ext_clearState ext_send ext_notify_admin)
qed

lemma ext_dispatch_v1:
  "extends_with (fresh_put c) w v \<Longrightarrow> extends_with (fresh_put c) w (dispatch_v1 e c m s v)"
  by (simp add: dispatch_v1_def Let_def ext_steps ext_ex_people_step_v1 ext_ex_contact_step_v1)

lemma ext_on_message_v1: "extends_with (fresh_put c) w (on_message_v1 e c m w)"
proof -
  obtain s v1 where l: "load_session c (userKey m) w = (s, v1)" by (metis prod.exhaust)
  from ext_load_session [OF ext_refl l] l show ?thesis
    by (simp add: on_message_v1_def ext_dispatch_v1)
qed

lemma extends_new_effects:
  "extends_with P w w' \<Longrightarrow> w' = replay (new_effects w w') w \<and> list_all P (new_effects w w')"
  by (auto simp: extends_with_def new_effects_def trace_replay)

lemma replay_Cons: "replay (e # es) w = replay es (apply_effect e w)"
  by (simp add: replay_def)

lemma replay_state_fresh:
  "list_all (fresh_put c) es \<Longrightarrow> STATE (replay es w) k = Some s \<Longrightarrow>
     STATE w k = Some s \<or> s_expiresAt s = Some (c_set c + 600000)"
proof (induction es arbitrary: w)
  case Nil
  then show ?case by (simp add: replay_def)
next
  case (Cons e es)
  from Cons.prems have f: "fresh_put c e" "list_all (fresh_put c) es"
    and r: "STATE (replay es (apply_effect e w)) k = Some s"
    by (simp_all add: replay_Cons)
  from Cons.IH [OF f(2) r]
  have "STATE (apply_effect e w) k = Some s \<or> s_expiresAt s = Some (c_set c + 600000)" .
  with f(1) show ?case by (cases e) (auto split: if_splits)
qed

lemma stored_sessions_fresh:
  assumes "extends_with (fresh_put c) w w'" "STATE w' k = Some s"
  shows "STATE w k = Some s \<or> s_expiresAt s = Some (c_set c + 600000)"
proof -
  from assms(1) obtain es where "w' = replay es w" "list_all (fresh_put c) es"
    by (auto simp: extends_with_def)
  with assms(2) replay_state_fresh [of c es w k s] show ?thesis by simp
qed

subsection \<open>The regular expressions\<close>

lemma list_ex_upt: "list_ex P [i..<j] = (\<exists>k. i \<le> k \<and> k < j \<and> P k)"
  by (auto simp: list_ex_iff)

lemma regex_single:
  "regex_test [(cls, lo, hi)] t =
     (lo \<le> length t \<and> (case hi of None \<Rightarrow> True | Some h \<Rightarrow> length t \<le> h) \<and>
      list_all (in_class cls) t)"
proof -
  define b where "b = (case hi of None \<Rightarrow> length t | Some h \<Rightarrow> min h (length t))"
  have le: "b \<le> length t" by (simp add: b_def split: option.splits)
  have R: "regex_test [(cls, lo, hi)] t =
      (\<exists>k. lo \<le> k \<and> k < Suc b \<and> list_all (in_class cls) (take k t) \<and> length t \<le> k)"
    unfolding b_def by (simp only: regex_test.simps prod.case list_ex_upt drop_eq_Nil)
  have "(\<exists>k. lo \<le> k \<and> k < Suc b \<and> list_all (in_class cls) (take k t) \<and> length t \<le> k) =
        (lo \<le> length t \<and> length t \<le> b \<and> list_all (in_class cls) t)"
  proof
    assume "\<exists>k. lo \<le> k \<and> k < Suc b \<and> list_all (in_class cls) (take k t) \<and> length t \<le> k"
    then obtain k where k: "lo \<le> k" "k < Suc b" "list_all (in_class cls) (take k t)" "length t \<le> k"
      by blast
    with le have "k = length t" by simp
    with k show "lo \<le> length t \<and> length t \<le> b \<and> list_all (in_class cls) t" by simp
  next
    assume "lo \<le> length t \<and> length t \<le> b \<and> list_all (in_class cls) t"
    then show "\<exists>k. lo \<le> k \<and> k < Suc b \<and> list_all (in_class cls) (take k t) \<and> length t \<le> k"
      by (intro exI [of _ "length t"]) simp
  qed
  with R have "regex_test [(cls, lo, hi)] t =
      (lo \<le> length t \<and> length t \<le> b \<and> list_all (in_class cls) t)" by simp
  then show ?thesis by (simp add: b_def split: option.splits)
qed

lemma regex_once:
  "regex_test ((cls, Suc 0, Some (Suc 0)) # r) [] = False"
  "regex_test ((cls, Suc 0, Some (Suc 0)) # r) (c # cs) = (in_class cls c \<and> regex_test r cs)"
proof -
  show "regex_test ((cls, Suc 0, Some (Suc 0)) # r) [] = False"
    by (simp add: list_ex_upt del: upt_Suc)
  have "(\<exists>k. Suc 0 \<le> k \<and> k < Suc (Suc 0) \<and> P k) = P (Suc 0)" for P
    by (metis less_Suc_eq_le le_antisym order_refl lessI)
  then show "regex_test ((cls, Suc 0, Some (Suc 0)) # r) (c # cs) = (in_class cls c \<and> regex_test r cs)"
    by (simp add: list_ex_upt del: upt_Suc)
qed

lemma range_one: "(a \<le> c \<and> c \<le> a) = (c = a)" for a c :: "16 word"
  by auto

lemma in_class_handle:
  "in_class [(0x61, 0x7A), (0x41, 0x5A), (0x30, 0x39), (0x5F, 0x5F)] = handle_char"
  by (rule ext) (simp add: in_class_def handle_char_def is_digit_def range_one)

lemma in_class_phone:
  "in_class [(0x30, 0x39), (0x2B, 0x2B),
        (0x9, 0xD), (0x20, 0x20), (0xA0, 0xA0), (0x1680, 0x1680), (0x2000, 0x200A),
        (0x2028, 0x2029), (0x202F, 0x202F), (0x205F, 0x205F), (0x3000, 0x3000),
        (0xFEFF, 0xFEFF),
        (0x28, 0x28), (0x29, 0x29), (0x2D, 0x2D)] = phone_char"
  by (rule ext) (simp add: in_class_def phone_char_def is_digit_def is_space_def range_one)

lemma isValidTelegram_iff: "isValidTelegram s = spec_handle s"
proof (cases s)
  case Nil
  then show ?thesis
    by (simp add: isValidTelegram_def telegram_regex_def spec_handle_def regex_once
        del: regex_test.simps)
next
  case (Cons c cs)
  have "in_class [(0x40, 0x40)] c = (c = 0x40)" by (simp add: in_class_def range_one)
  then show ?thesis
    by (simp add: Cons isValidTelegram_def telegram_regex_def spec_handle_def regex_once
        regex_single in_class_handle del: regex_test.simps)
qed

lemma isValidPhone_iff: "isValidPhone s = phone_shape s"
proof -
  have "Suc 0 \<le> length s" if "10 \<le> length (filter is_digit s)"
    using that length_filter_le [of is_digit s] by linarith
  then show ?thesis
    by (auto simp: isValidPhone_def phone_regex_def regex_single in_class_phone phone_shape_def
        Let_def simp del: regex_test.simps)
qed

subsection \<open>Reaching a step\<close>

lemma userKey_sample: "userKey (sample_message t) = asc ''user:555''"
  by (simp add: userKey_def sample_message_def show_int_def show_nat.simps digit_char_def asc_def)

lemma load_live:
  "STATE w key = Some s \<Longrightarrow> \<not> session_expired (c_now c) s \<Longrightarrow> load_session c key w = (s, w)"
  by (simp add: load_session_def)

lemma on_message_v1_live:
  "STATE w (userKey m) = Some s \<Longrightarrow> \<not> session_expired (c_now c) s \<Longrightarrow>
     on_message_v1 e c m w = dispatch_v1 e c m s w"
  by (simp add: on_message_v1_def load_live)

lemma on_message_v2_live:
  "STATE w (userKey m) = Some s \<Longrightarrow> \<not> session_expired (c_now c) s \<Longrightarrow>
     on_message_v2 e c m w = dispatch_v2 e c m s w"
  by (simp add: on_message_v2_def load_live)

lemma dispatch_v1_people:
  "s_step s = Some ex_people \<Longrightarrow> msg_text m = Some text \<Longrightarrow> \<not> menu_text_v1 text \<Longrightarrow>
     dispatch_v1 e c m s w = ex_people_step_v1 c (userKey m) (msg_chat_id m) text s w"
  by (simp add: dispatch_v1_def menu_text_v1_def Let_def or_else_def)

lemma dispatch_v1_contact:
  "s_step s = Some ex_contact \<Longrightarrow> msg_text m = Some text \<Longrightarrow> \<not> menu_text_v1 text \<Longrightarrow>
     dispatch_v1 e c m s w = ex_contact_step_v1 e c m text s w"
  by (simp add: dispatch_v1_def menu_text_v1_def Let_def or_else_def)

lemma generateBookingId_ne: "generateBookingId c d \<noteq> []"
  by (simp add: generateBookingId_def asc_def)

lemmas label_defs = label_6_10_def label_more_11_def allowed_people_def stored_people_def asc_def

lemmas menu_defs = menu_text_v1_def txt_reset_def txt_main_menu_def txt_excursions_def
  txt_schedule_def txt_route_def txt_products_def txt_book_excursion_def

subsection \<open>Evaluation of the conversation on the sample data\<close>

lemma sample_live: "\<not> session_expired (c_now sample_clock) (sample_session st 1767311900000)"
  by (simp add: session_expired_def sample_session_def sample_clock_def)

lemma sample_state:
  "STATE (session_world s) (userKey (sample_message t)) = Some s"
  by (simp add: session_world_def userKey_sample)

lemma sample_msg_sel:
  "msg_text (sample_message t) = Some t" "msg_chat_id (sample_message t) = 555"
  "msg_from_id (sample_message t) = Some 555"
  by (simp_all add: sample_message_def)

lemma sample_session_step: "s_step (sample_session st n) = Some st"
  by (simp add: sample_session_def)

lemmas v2_texts = txt_events_summary_def txt_reset_def txt_main_menu_def txt_excursions_def
  txt_schedule_def txt_route_def txt_products_def txt_ny_events_def txt_book_excursion_def

lemma sample_not_admin: "\<not> isAdminUserId sample_env (Some 555)"
  by (simp add: isAdminUserId_def sample_env_def truthy_def tpl_def string_of_id_def show_int_def
     show_nat.simps asc_def digit_char_def)

lemma sample_today: "length (c_today sample_clock) = 10"
  by (simp add: sample_clock_def asc_def)

lemma sample_id_value:
  "generateBookingId sample_clock (sample_request n) = asc ''bk-03.01-2026-01-02-1767312000007''"
  by (simp add: generateBookingId_def event_part_def sample_request_def sample_clock_def or_else_def
      show_nat.simps digit_char_def asc_def)

subsection \<open>The contact step\<close>

lemma ex_contact_step_v1_reject:
  "\<not> (spec_handle (js_trim text) \<or> phone_shape (js_trim text)) \<Longrightarrow>
     ex_contact_step_v1 e c m text s w =
       w\<lparr> trace := trace w @
            [SendMessage (msg_chat_id m) BadContactText (Some FlowKeyboard),
             SendMessage (msg_chat_id m) AskContactText (Some FlowKeyboard)] \<rparr>"
  by (simp add: ex_contact_step_v1_def Let_def isValidTelegram_iff isValidPhone_iff emit_def)

lemma ex_contact_step_v1_accept:
  assumes "spec_handle (js_trim txt) \<or> phone_shape (js_trim txt)"
  shows "\<exists>b. BOOKINGS (ex_contact_step_v1 e c m txt s w) =
                (BOOKINGS w)(asc ''booking:'' @ b_id b \<mapsto> b) \<and>
             b_status b = StNew \<and> b_type b = Excursion \<and>
             b_id b = asc ''bk-'' @ or_else (s_date s) (asc ''na'') @ asc ''-'' @ c_today c
                        @ asc ''-'' @ show_nat (c_ts c) \<and>
             d_contact (b_data b) = Some (js_trim txt) \<and>
             STATE (ex_contact_step_v1 e c m txt s w) = (STATE w)(userKey m := None)"
proof -
  let ?req = "\<lparr> r_type = Excursion, r_chatId = msg_chat_id m,
                  r_nyEventId = None, r_nyEventDate = None,
                  r_people = people_number (s_people s),
                  r_data = \<lparr> d_name = s_name s, d_date = s_date s,
                    d_time = s_time s, d_people = s_people s,
                    d_contact = Some (js_trim txt), d_nyEventTitle = None,
                    d_username = None \<rparr> \<rparr>"
  let ?b = "fst (createBooking c ?req w)"
  from assms have v: "isValidTelegram (js_trim txt) \<or> isValidPhone (js_trim txt)"
    by (simp add: isValidTelegram_iff isValidPhone_iff)
  have i: "b_id ?b = generateBookingId c ?req" by (simp add: createBooking_def Let_def)
  have g: "generateBookingId c ?req = asc ''bk-'' @ or_else (s_date s) (asc ''na'') @ asc ''-'' @ c_today c
                        @ asc ''-'' @ show_nat (c_ts c)"
    by (simp add: generateBookingId_def event_part_def or_else_def)
  have r: "ex_contact_step_v1 e c m txt s w =
      clearState (userKey m)
        (sendMessage (msg_chat_id m) ThanksExcursionText (Some MainKeyboardPlain)
           (notify_admin e (NewExcursionText ?b (s\<lparr> s_contact := Some (js_trim txt) \<rparr>)) ?b
              (snd (createBooking c ?req w))))"
    using v by (auto simp: ex_contact_step_v1_def Let_def split_beta)
  have bk: "BOOKINGS (snd (createBooking c ?req w)) = (BOOKINGS w)(asc ''booking:'' @ b_id ?b \<mapsto> ?b)"
    and st: "STATE (snd (createBooking c ?req w)) = STATE w"
    using generateBookingId_ne [of c ?req]
    by (simp_all add: createBooking_def saveBooking_def Let_def)
  have f: "b_status ?b = StNew" "b_type ?b = Excursion" "d_contact (b_data ?b) = Some (js_trim txt)"
    by (simp_all add: createBooking_def Let_def)
  show ?thesis
    by (rule exI [of _ ?b])
       (simp add: r clearState_def notify_admin_def bk st f i g)
qed

lemma trim_examples:
  "js_trim (asc ''+7 999 123-45-67'') = asc ''+7 999 123-45-67''"
  "js_trim (asc ''@john_doe'') = asc ''@john_doe''"
  "js_trim (asc ''12345'') = asc ''12345''"
  "js_trim (asc ''@a'') = asc ''@a''"
  "js_trim (asc '' @john_doe'') = asc ''@john_doe''"
  by (simp_all add: js_trim_def asc_def is_space_def)

lemma contact_examples:
  "phone_shape (asc ''+7 999 123-45-67'')" "spec_handle (asc ''@john_doe'')"
  "\<not> spec_handle (asc ''12345'')" "\<not> phone_shape (asc ''12345'')"
  "\<not> spec_handle (asc ''@a'')" "\<not> phone_shape (asc ''@a'')"
  "\<not> spec_handle (asc '' @john_doe'')" "\<not> spec_phone (asc '' @john_doe'')"
  "\<not> spec_phone (asc ''12345'')"
  by (simp_all add: phone_shape_def spec_phone_def spec_handle_def phone_char_def spec_phone_char_def
      handle_char_def is_digit_def is_space_def asc_def)

lemma sample_session_date: "s_date (sample_session st n) = Some (asc ''03.01'')"
  by (simp add: sample_session_def)

lemma sample_booking_key:
  "asc ''booking:'' @ asc ''bk-'' @ or_else (Some (asc ''03.01'')) (asc ''na'') @ asc ''-'' @
     c_today sample_clock @ asc ''-'' @ show_nat (c_ts sample_clock) =
   asc ''booking:bk-03.01-2026-01-02-1767312000007''"
  by (simp add: or_else_def sample_clock_def show_nat.simps digit_char_def asc_def)

lemma v1_contact_stored:
  assumes "\<not> menu_text_v1 t" "spec_handle (js_trim t) \<or> phone_shape (js_trim t)"
  shows "map_option (\<lambda>b. d_contact (b_data b))
     (BOOKINGS (on_message_v1 sample_env sample_clock (sample_message t)
                  (session_world (sample_session ex_contact 1767311900000)))
        (asc ''booking:bk-03.01-2026-01-02-1767312000007'')) = Some (Some (js_trim t))"
proof -
  let ?s = "sample_session ex_contact 1767311900000"
  have 1: "on_message_v1 sample_env sample_clock (sample_message t) (session_world ?s) =
      ex_contact_step_v1 sample_env sample_clock (sample_message t) t ?s (session_world ?s)"
    using assms(1)
    by (simp add: on_message_v1_live [OF sample_state sample_live] dispatch_v1_contact
        sample_session_step sample_msg_sel)
  from ex_contact_step_v1_accept [OF assms(2), of sample_env sample_clock "sample_message t" ?s
      "session_world ?s"]
  obtain b where b: "BOOKINGS (ex_contact_step_v1 sample_env sample_clock (sample_message t) t ?s
        (session_world ?s)) = (BOOKINGS (session_world ?s))(asc ''booking:'' @ b_id b \<mapsto> b)"
    "b_id b = asc ''bk-'' @ or_else (s_date ?s) (asc ''na'') @ asc ''-'' @ c_today sample_clock
                        @ asc ''-'' @ show_nat (c_ts sample_clock)"
    "d_contact (b_data b) = Some (js_trim t)"
    by blast
  from b(2) have k: "asc ''booking:'' @ b_id b = asc ''booking:bk-03.01-2026-01-02-1767312000007''"
    by (simp only: sample_session_date sample_booking_key)
  show ?thesis unfolding 1 b(1) k by (simp add: b(3))
qed

lemma more_examples:
  "\<not> menu_text_v1 (asc ''@john_doe'')" "\<not> menu_text_v1 (asc ''12345'')"
  "\<not> menu_text_v1 (asc '' @john_doe'')" "\<not> menu_text_v1 two_line_phone"
  "js_trim two_line_phone = two_line_phone"
  "phone_shape two_line_phone" "\<not> spec_phone two_line_phone" "\<not> spec_handle two_line_phone"
  by (simp_all add: menu_defs two_line_phone_def js_trim_def phone_shape_def spec_phone_def
      spec_handle_def phone_char_def spec_phone_char_def is_digit_def is_space_def asc_def)

subsection \<open>What the dispatch hands to the handler of the buttons\<close>

lemma js_split_prefix:
  "startsWith s (p @ [sep]) \<Longrightarrow> sep \<notin> set p \<Longrightarrow> \<exists>rest. js_split sep s = p # rest"
proof (induction p arbitrary: s)
  case Nil
  then show ?case by (cases s) auto
next
  case (Cons a p)
  from Cons.prems obtain s' where s: "s = a # s'" "startsWith s' (p @ [sep])" "a \<noteq> sep"
    by (cases s) auto
  from Cons.IH [OF s(2)] Cons.prems(2) obtain rest where "js_split sep s' = p # rest" by auto
  with s show ?case by simp
qed

lemma js_split_startsWith:
  "startsWith s (p @ [sep]) \<Longrightarrow> sep \<notin> set p \<Longrightarrow> index_opt (js_split sep s) 0 = Some p"
  using js_split_prefix [of s p sep] by auto

lemma dispatch_action:
  "startsWith (or_else (cq_data cq) []) (asc ''confirm:'') \<Longrightarrow>
     callback_action cq = Some (asc ''confirm'')"
  "startsWith (or_else (cq_data cq) []) (asc ''cancel:'') \<Longrightarrow>
     callback_action cq = Some (asc ''cancel'')"
  using js_split_startsWith [of "or_else (cq_data cq) []" "asc ''confirm''" "0x3A"]
    js_split_startsWith [of "or_else (cq_data cq) []" "asc ''cancel''" "0x3A"]
  by (simp_all add: callback_action_def callback_parts_def asc_def)

subsection \<open>Stored bookings stay under their own id\<close>

lemma wf_bookings_emit [simp]: "wf_bookings (emit e w) = wf_bookings w"
  by (simp add: wf_bookings_def)

lemma wf_bookings_saveBooking:
  "wf_bookings w \<Longrightarrow> wf_bookings (saveBooking b w)"
  by (simp add: wf_bookings_def saveBooking_def)

lemma wf_bookings_same: "BOOKINGS v = BOOKINGS w \<Longrightarrow> wf_bookings v = wf_bookings w"
  by (simp add: wf_bookings_def)

lemma wf_bookings_createBooking:
  "wf_bookings w \<Longrightarrow> wf_bookings (snd (createBooking c d w))"
  by (simp add: createBooking_def Let_def wf_bookings_saveBooking)

lemma wf_bookings_handleAdminBookingAction:
  assumes "wf_bookings w"
  shows "wf_bookings (handleAdminBookingAction cq w)"
proof (cases "getBooking (callback_bookingId cq) w")
  case None
  with assms show ?thesis by (simp add: handleAdminBookingAction_def)
next
  case (Some b)
  have r: "wf_bookings v" if "reserve_seats (cq_id cq) b w = Return v \<or> reserve_seats (cq_id cq) b w = Continue v" for v
    using that assms reserve_seats_Return [of "cq_id cq" b w v] reserve_seats_Continue [of "cq_id cq" b w v]
      wf_bookings_same [of v w] by blast
  show ?thesis
    using Some assms r
    by (cases "reserve_seats (cq_id cq) b w")
       (auto simp: handleAdminBookingAction_def Let_def wf_bookings_saveBooking
          wf_bookings_same [OF edit_admin_message_stores(2)])
qed

lemma wf_bookings_session_ops [simp]:
  "wf_bookings (setState c key s v) = wf_bookings v"
  "wf_bookings (clearState key v) = wf_bookings v"
  "wf_bookings (notify_admin e t b v) = wf_bookings v"
  by (simp_all add: setState_def clearState_def notify_admin_def wf_bookings_def)

lemma wf_bookings_getEventState:
  "getEventState i v = (r, v1) \<Longrightarrow> wf_bookings v1 = wf_bookings v"
  by (cases r) (simp add: wf_bookings_same [OF getEventState_BOOKINGS])

lemma wf_bookings_enter_event [simp]:
  "wf_bookings (enter_event c key chatId kb base ev v) = wf_bookings v"
proof -
  obtain r v1 where g: "getEventState (ev_id ev) v = (r, v1)" by (metis prod.exhaust)
  obtain k st where r: "r = (k, st)" by (metis prod.exhaust)
  from wf_bookings_getEventState [OF g] g r show ?thesis
    by (simp add: enter_event_def)
qed

lemma wf_bookings_menu_ops [simp]:
  "wf_bookings (startNyMenu c key i v) = wf_bookings v"
  "wf_bookings (send_welcome key i kb v) = wf_bookings v"
  "wf_bookings (start_or_menu c key i kb t v) = wf_bookings v"
  "wf_bookings (ny_choose_step c key i kb t s v) = wf_bookings v"
  "wf_bookings (ex_people_step_v1 c key i t s v) = wf_bookings v"
  by (simp_all add: startNyMenu_def send_welcome_def start_or_menu_def ny_choose_step_def
      ex_people_step_v1_def Let_def split: option.splits)

lemma wf_bookings_last_steps:
  assumes "wf_bookings v"
  shows "wf_bookings (ny_contact_step e c m kb t s v)"
    and "wf_bookings (ex_contact_step_v2 e c m kb t s v)"
    and "wf_bookings (ex_contact_step_v1 e c m t s v)"
  using wf_bookings_createBooking [OF assms] assms
  by (simp_all add: ny_contact_step_def ex_contact_step_v2_def ex_contact_step_v1_def Let_def
      split_beta)

lemma wf_bookings_load_session:
  "load_session c key v = (s, v1) \<Longrightarrow> wf_bookings v1 = wf_bookings v"
  by (auto simp: load_session_def Let_def wf_bookings_def split: if_splits)

lemma wf_bookings_on_message:
  assumes "wf_bookings w"
  shows "wf_bookings (on_message_v2 e c m w)" and "wf_bookings (on_message_v1 e c m w)"
proof -
  obtain s v1 where l: "load_session c (userKey m) w = (s, v1)" by (metis prod.exhaust)
  from wf_bookings_load_session [OF l] assms have v1: "wf_bookings v1" by simp
  from v1 l show "wf_bookings (on_message_v2 e c m w)"
    by (simp add: on_message_v2_def dispatch_v2_def Let_def wf_bookings_last_steps)
  from v1 l show "wf_bookings (on_message_v1 e c m w)"
    by (simp add: on_message_v1_def dispatch_v1_def Let_def wf_bookings_last_steps)
qed

lemma read_event_states_BOOKINGS:
  "read_event_states evs w = (ls, w1) \<Longrightarrow> BOOKINGS w1 = BOOKINGS w"
proof (induction evs arbitrary: w ls w1)
  case Nil
  then show ?case by simp
next
  case (Cons ev evs)
  obtain key st wa where g: "getEventState (ev_id ev) w = ((key, st), wa)"
    by (metis prod.exhaust)
  obtain rest wb where r: "read_event_states evs wa = (rest, wb)"
    by (metis prod.exhaust)
  from Cons.IH [OF r] getEventState_BOOKINGS [OF g] Cons.prems g r show ?case by simp
qed

lemma wf_bookings_on_callback_query:
  assumes "wf_bookings w"
  shows "wf_bookings (snd (on_callback_query e cq w))"
proof -
  have s: "wf_bookings (sendEventsSummaryMessage i w)" for i
  proof -
    obtain ls w1 where r: "read_event_states winterEvents w = (ls, w1)" by (metis prod.exhaust)
    with wf_bookings_same [OF read_event_states_BOOKINGS [OF r]] assms show ?thesis
      by (simp add: sendEventsSummaryMessage_def)
  qed
  have d: "wf_bookings (sendEventDetailMessage i x w)" for i x
  proof (cases "find_event x")
    case None
    with assms show ?thesis by (simp add: sendEventDetailMessage_def)
  next
    case (Some ev)
    obtain r w1 where g: "getEventState (ev_id ev) w = (r, w1)" by (metis prod.exhaust)
    obtain k st where r: "r = (k, st)" by (metis prod.exhaust)
    from wf_bookings_getEventState [OF g] g r Some assms show ?thesis
      by (simp add: sendEventDetailMessage_def)
  qed
  show ?thesis
    using assms s d wf_bookings_handleAdminBookingAction [OF assms]
    by (simp add: on_callback_query_def handleEventsSummaryCallback_def Let_def
        split: option.splits)
qed

lemma wf_bookings_on_update:
  "wf_bookings w \<Longrightarrow> wf_bookings (snd (on_update_v2 e c u w))"
  by (simp add: on_update_v2_def wf_bookings_on_callback_query wf_bookings_on_message
      split: option.splits)

lemma wf_bookings_empty: "wf_bookings empty_world"
  by (simp add: wf_bookings_def empty_world_def)

lemma dispatch_v2_people:
  "s_step s = Some ex_people \<Longrightarrow> msg_text m = Some txt \<Longrightarrow> \<not> menu_text_v2 e m txt \<Longrightarrow>
     dispatch_v2 e c m s w =
       sendMessage (msg_chat_id m) AskContactText (Some NoKeyboard)
         (setState c (userKey m) (s\<lparr> s_people := Some txt, s_step := Some ex_contact \<rparr>) w)"
  by (auto simp: dispatch_v2_def menu_text_v2_def Let_def or_else_def)

lemma dispatch_v2_contact:
  "s_step s = Some ex_contact \<Longrightarrow> msg_text m = Some txt \<Longrightarrow> \<not> menu_text_v2 e m txt \<Longrightarrow>
     dispatch_v2 e c m s w =
       ex_contact_step_v2 e c m (MainKeyboard (isAdminUserId e (msg_from_id m))) txt s w"
  by (auto simp: dispatch_v2_def menu_text_v2_def Let_def or_else_def)

lemma ex_contact_step_v2_accept:
  "\<exists>b. BOOKINGS (ex_contact_step_v2 e c m kb txt s w) =
                (BOOKINGS w)(asc ''booking:'' @ b_id b \<mapsto> b) \<and>
             b_status b = StNew \<and> b_type b = Excursion \<and>
             b_id b = asc ''bk-'' @ or_else (s_date s) (asc ''na'') @ asc ''-'' @ c_today c
                        @ asc ''-'' @ show_nat (c_ts c) \<and>
             d_contact (b_data b) = Some txt \<and>
             STATE (ex_contact_step_v2 e c m kb txt s w) = (STATE w)(userKey m := None)"
proof -
  let ?req = "\<lparr> r_type = Excursion, r_chatId = msg_chat_id m,
                  r_nyEventId = None, r_nyEventDate = None,
                  r_people = people_number (s_people s),
                  r_data = \<lparr> d_name = s_name s, d_date = s_date s,
                    d_time = s_time s, d_people = s_people s,
                    d_contact = Some txt, d_nyEventTitle = None,
                    d_username = None \<rparr> \<rparr>"
  let ?b = "fst (createBooking c ?req w)"
  have i: "b_id ?b = generateBookingId c ?req" by (simp add: createBooking_def Let_def)
  have g: "generateBookingId c ?req = asc ''bk-'' @ or_else (s_date s) (asc ''na'') @ asc ''-'' @ c_today c
                        @ asc ''-'' @ show_nat (c_ts c)"
    by (simp add: generateBookingId_def event_part_def or_else_def)
  have r: "ex_contact_step_v2 e c m kb txt s w =
      clearState (userKey m)
        (sendMessage (msg_chat_id m) ThanksExcursionText (Some kb)
           (notify_admin e (NewExcursionText ?b (s\<lparr> s_contact := Some txt \<rparr>)) ?b
              (snd (createBooking c ?req w))))"
    by (simp add: ex_contact_step_v2_def Let_def split_beta)
  have bk: "BOOKINGS (snd (createBooking c ?req w)) = (BOOKINGS w)(asc ''booking:'' @ b_id ?b \<mapsto> ?b)"
    and st: "STATE (snd (createBooking c ?req w)) = STATE w"
    using generateBookingId_ne [of c ?req]
    by (simp_all add: createBooking_def saveBooking_def Let_def)
  have f: "b_status ?b = StNew" "b_type ?b = Excursion" "d_contact (b_data ?b) = Some txt"
    by (simp_all add: createBooking_def Let_def)
  show ?thesis
    by (rule exI [of _ ?b])
       (simp add: r clearState_def notify_admin_def bk st f i g)
qed

lemma createBooking_twice:
  assumes "generateBookingId c1 d1 = generateBookingId c2 d2"
  shows "BOOKINGS (snd (createBooking c2 d2 (snd (createBooking c1 d1 w)))) =
         (BOOKINGS w)(asc ''booking:'' @ generateBookingId c2 d2 \<mapsto>
            fst (createBooking c2 d2 (snd (createBooking c1 d1 w))))"
  using assms generateBookingId_ne [of c2 d2]
  by (simp add: createBooking_def Let_def saveBooking_def)

lemma v2_free_texts:
  "\<not> menu_text_v2 sample_env (sample_message t) (asc ''7'')"
  "\<not> menu_text_v2 sample_env (sample_message t) (asc '' @john_doe'')"
  by (simp_all add: menu_text_v2_def v2_texts asc_def)

section \<open>Verified properties\<close>



text \<open>
  Claim C2, as stated, fails: confirming a declined booking stores it as confirmed and
  books its seats, and declining a confirmed booking stores it as declined.
\<close>

theorem terminal_noop_counterexample:
  "map_option b_status (BOOKINGS (sample_world StCancelled) sample_key) = Some StCancelled \<and>
   map_option b_status
     (BOOKINGS (handleAdminBookingAction (sample_query ''confirm'' 1001) (sample_world StCancelled))
        sample_key) = Some StConfirmed \<and>
   EVENTS (sample_world StCancelled) (asc ''event:ny-03'') = None \<and>
   EVENTS (handleAdminBookingAction (sample_query ''confirm'' 1001) (sample_world StCancelled))
     (asc ''event:ny-03'') = Some \<lparr> capacity = 40, booked = 2 \<rparr> \<and>
   map_option b_status (BOOKINGS (sample_world StConfirmed) sample_key) = Some StConfirmed \<and>
   map_option b_status
     (BOOKINGS (handleAdminBookingAction (sample_query ''cancel'' 1001) (sample_world StConfirmed))
        sample_key) = Some StCancelled"
  by (simp add: eval_defs sample_id_ne asc_def)

text \<open>
  Claim C2, amended. Repeating the action a booking already carries changes nothing:
  confirm on a confirmed booking and cancel on a declined booking leave every store as
  it is and only answer the operator with the existing state.
\<close>

theorem repeated_action_noop:
  "(callback_action cq = Some (asc ''confirm'') \<and>
    getBooking (callback_bookingId cq) w = Some b \<and> b_status b = StConfirmed \<longrightarrow>
      handleAdminBookingAction cq w =
        w\<lparr> trace := trace w @ [AnswerCallbackQuery (cq_id cq) AlreadyConfirmed] \<rparr>) \<and>
   (callback_action cq = Some (asc ''cancel'') \<and>
    getBooking (callback_bookingId cq) w = Some b \<and> b_status b = StCancelled \<longrightarrow>
      handleAdminBookingAction cq w =
        w\<lparr> trace := trace w @ [AnswerCallbackQuery (cq_id cq) AlreadyCancelled] \<rparr>)"
  by (simp add: handleAdminBookingAction_def Let_def asc_def emit_def)

theorem repeated_action_noop_witness:
  "callback_action (sample_query ''confirm'' 1001) = Some (asc ''confirm'') \<and>
   handleAdminBookingAction (sample_query ''confirm'' 1001) (sample_world StConfirmed) =
     (sample_world StConfirmed)\<lparr> trace := [AnswerCallbackQuery (asc ''cb-1'') AlreadyConfirmed] \<rparr> \<and>
   callback_action (sample_query ''cancel'' 1001) = Some (asc ''cancel'') \<and>
   handleAdminBookingAction (sample_query ''cancel'' 1001) (sample_world StCancelled) =
     (sample_world StCancelled)\<lparr> trace := [AnswerCallbackQuery (asc ''cb-1'') AlreadyCancelled] \<rparr>"
proof -
  have g: "getBooking (Some sample_id) (sample_world st) = Some (sample_booking\<lparr> b_status := st \<rparr>)"
    for st
    by (simp add: getBooking_def tpl_def sample_world_def sample_key_def)
  have t: "trace (sample_world st) = []" for st by (simp add: sample_world_def)
  from repeated_action_noop [of "sample_query ''confirm'' 1001" "sample_world StConfirmed"
      "sample_booking\<lparr> b_status := StConfirmed \<rparr>"]
    repeated_action_noop [of "sample_query ''cancel'' 1001" "sample_world StCancelled"
      "sample_booking\<lparr> b_status := StCancelled \<rparr>"]
  show ?thesis by (simp add: g sample_parts sample_query_sel t)
qed

text \<open>
  Claim C3. Confirming the same booking twice in a row: the second confirm writes no
  counter and no booking, its only effect is one answer to the operator, and the stores
  after it are the stores after the first; when the first confirm left the booking
  stored as confirmed, that answer is the already-confirmed notice.
\<close>

theorem confirm_twice_idempotent:
  assumes wf: "wf_bookings w"
    and act: "callback_action cq = Some (asc ''confirm'')"
    and same: "cq_data cq2 = cq_data cq"
  shows "\<exists>n. handleAdminBookingAction cq2 (handleAdminBookingAction cq w) =
           (handleAdminBookingAction cq w)
             \<lparr> trace := trace (handleAdminBookingAction cq w) @ [AnswerCallbackQuery (cq_id cq2) n] \<rparr> \<and>
         (\<forall>b. getBooking (callback_bookingId cq) (handleAdminBookingAction cq w) = Some b \<and>
              b_status b = StConfirmed \<longrightarrow> n = AlreadyConfirmed)"
proof -
  let ?i = "callback_bookingId cq"
  from same have act2: "callback_action cq2 = Some (asc ''confirm'')"
    and id2: "callback_bookingId cq2 = ?i"
    using act by (simp_all add: callback_action_def callback_bookingId_def callback_parts_def)
  have em: "emit e v = v\<lparr> trace := trace v @ [e] \<rparr>" for e v by (simp add: emit_def)
  show ?thesis
  proof (cases "getBooking ?i w")
    case None
    then have 1: "handleAdminBookingAction cq w = emit (AnswerCallbackQuery (cq_id cq) BookingNotFound) w"
      by (simp add: handleAdminBookingAction_def)
    have "getBooking ?i (handleAdminBookingAction cq w) = None"
      using None by (simp add: 1 getBooking_def)
    then show ?thesis
      by (intro exI [of _ BookingNotFound]) (simp add: handleAdminBookingAction_def [of cq2] id2 em)
  next
    case (Some b)
    note key = wf_bookings_key [OF wf Some]
    show ?thesis
    proof (cases "b_status b = StConfirmed")
      case True
      with Some act have 1: "handleAdminBookingAction cq w = emit (AnswerCallbackQuery (cq_id cq) AlreadyConfirmed) w"
        by (simp add: handleAdminBookingAction_def)
      have "getBooking ?i (handleAdminBookingAction cq w) = Some b"
        using Some by (simp add: 1 getBooking_def)
      with True show ?thesis
        by (intro exI [of _ AlreadyConfirmed])
           (simp add: handleAdminBookingAction_def [of cq2] id2 act2 em)
    next
      case False
      show ?thesis
      proof (cases "reserve_seats (cq_id cq) b w")
        case (Return w1)
        with Some act False have 1: "handleAdminBookingAction cq w = w1"
          by (simp add: handleAdminBookingAction_def)
        from reserve_seats_Return [OF Return] have bk: "BOOKINGS w1 = BOOKINGS w"
          and "\<exists>n. reserve_seats (cq_id cq2) b w1 = Return (emit (AnswerCallbackQuery (cq_id cq2) n) w1)"
          by auto
        then obtain n where n: "reserve_seats (cq_id cq2) b w1 = Return (emit (AnswerCallbackQuery (cq_id cq2) n) w1)"
          by blast
        have g: "getBooking ?i w1 = Some b" using Some bk by (simp add: getBooking_def)
        show ?thesis
          using False
          by (intro exI [of _ n])
             (simp add: 1 handleAdminBookingAction_def [of cq2] id2 act2 g n em)
      next
        case (Continue w1)
        let ?b1 = "b\<lparr> b_status := StConfirmed \<rparr>"
        from reserve_seats_Continue [OF Continue] have bk: "BOOKINGS w1 = BOOKINGS w" .
        have g: "getBooking ?i (handleAdminBookingAction cq w) = Some ?b1"
          using Some act False Continue key
          by (auto simp: handleAdminBookingAction_def Let_def getBooking_def saveBooking_def)
        show ?thesis
          by (intro exI [of _ AlreadyConfirmed])
             (simp add: handleAdminBookingAction_def [of cq2] id2 act2 g em)
      qed
    qed
  qed
qed

theorem confirm_twice_idempotent_witness:
  "wf_bookings (sample_world StNew) \<and>
   callback_action (sample_query ''confirm'' 1001) = Some (asc ''confirm'') \<and>
   map_option b_status
     (getBooking (Some sample_id)
        (handleAdminBookingAction (sample_query ''confirm'' 1001) (sample_world StNew)))
     = Some StConfirmed \<and>
   handleAdminBookingAction (sample_query ''confirm'' 1001)
       (handleAdminBookingAction (sample_query ''confirm'' 1001) (sample_world StNew)) =
     (handleAdminBookingAction (sample_query ''confirm'' 1001) (sample_world StNew))
       \<lparr> trace := trace (handleAdminBookingAction (sample_query ''confirm'' 1001) (sample_world StNew))
            @ [AnswerCallbackQuery (asc ''cb-1'') AlreadyConfirmed] \<rparr>"
proof -
  let ?q = "sample_query ''confirm'' 1001"
  let ?w1 = "handleAdminBookingAction ?q (sample_world StNew)"
  have a: "callback_action ?q = Some (asc ''confirm'')" by (rule sample_parts)
  have g: "getBooking (Some sample_id) ?w1 = Some (sample_booking\<lparr> b_status := StConfirmed \<rparr>)"
    by (simp add: eval_defs sample_id_ne asc_def)
  from confirm_twice_idempotent [OF wf_sample a refl, of StNew]
  obtain n where n: "handleAdminBookingAction ?q ?w1 =
       ?w1\<lparr> trace := trace ?w1 @ [AnswerCallbackQuery (cq_id ?q) n] \<rparr>"
    and c: "\<forall>b. getBooking (callback_bookingId ?q) ?w1 = Some b \<and> b_status b = StConfirmed
             \<longrightarrow> n = AlreadyConfirmed"
    by blast
  from c g have "n = AlreadyConfirmed" by (simp add: sample_parts)
  with n g a wf_sample show ?thesis by (simp add: sample_query_sel)
qed



text \<open>
  Claim C5, as stated, fails in three ways. The second variant of the worker takes any
  text as the contact: \<open>12345\<close> is stored. The first variant trims the text before it
  checks it: \<open>@john_doe\<close> after a space is stored although the text itself matches
  neither pattern. And its phone pattern takes any white space for a space: a phone
  number broken over two lines is stored.
\<close>

theorem contact_validation_counterexample:
  "\<not> spec_handle (asc ''12345'') \<and> \<not> spec_phone (asc ''12345'') \<and>
   map_option (\<lambda>b. d_contact (b_data b))
     (BOOKINGS (on_message_v2 sample_env sample_clock (sample_message (asc ''12345''))
                  (session_world (sample_session ex_contact 1767311900000)))
        (asc ''booking:bk-03.01-2026-01-02-1767312000007'')) = Some (Some (asc ''12345'')) \<and>
   \<not> spec_handle (asc '' @john_doe'') \<and> \<not> spec_phone (asc '' @john_doe'') \<and>
   map_option (\<lambda>b. d_contact (b_data b))
     (BOOKINGS (on_message_v1 sample_env sample_clock (sample_message (asc '' @john_doe''))
                  (session_world (sample_session ex_contact 1767311900000)))
        (asc ''booking:bk-03.01-2026-01-02-1767312000007'')) = Some (Some (asc ''@john_doe'')) \<and>
   \<not> spec_handle two_line_phone \<and> \<not> spec_phone two_line_phone \<and>
   map_option (\<lambda>b. d_contact (b_data b))
     (BOOKINGS (on_message_v1 sample_env sample_clock (sample_message two_line_phone)
                  (session_world (sample_session ex_contact 1767311900000)))
        (asc ''booking:bk-03.01-2026-01-02-1767312000007'')) = Some (Some two_line_phone)"
proof -
  let ?s = "sample_session ex_contact 1767311900000"
  let ?m = "sample_message (asc ''12345'')"
  have 1: "on_message_v2 sample_env sample_clock ?m (session_world ?s)
      = dispatch_v2 sample_env sample_clock ?m ?s (session_world ?s)"
    by (rule on_message_v2_live [OF sample_state sample_live])
  have 2: "dispatch_v2 sample_env sample_clock ?m ?s w =
      ex_contact_step_v2 sample_env sample_clock ?m (MainKeyboard False) (asc ''12345'') ?s w" for w
    by (simp add: dispatch_v2_def Let_def sample_msg_sel or_else_def userKey_sample
        sample_session_step v2_texts asc_def sample_not_admin)
  have 3: "BOOKINGS (ex_contact_step_v2 sample_env sample_clock ?m kb (asc ''12345'') ?s w)
      = (BOOKINGS w)(asc ''booking:bk-03.01-2026-01-02-1767312000007'' \<mapsto>
           fst (createBooking sample_clock
             \<lparr> r_type = Excursion, r_chatId = 555, r_nyEventId = None, r_nyEventDate = None,
               r_people = people_number (s_people ?s),
               r_data = \<lparr> d_name = s_name ?s, d_date = s_date ?s, d_time = s_time ?s,
                 d_people = s_people ?s, d_contact = Some (asc ''12345''),
                 d_nyEventTitle = None, d_username = None \<rparr> \<rparr> w))" for kb w
    by (simp add: ex_contact_step_v2_def Let_def split_beta createBooking_def saveBooking_def
        generateBookingId_ne clearState_def notify_admin_def sample_msg_sel)
       (simp add: generateBookingId_def event_part_def sample_session_date or_else_def
          sample_clock_def show_nat.simps digit_char_def asc_def)
  have a: "map_option (\<lambda>b. d_contact (b_data b))
     (BOOKINGS (on_message_v2 sample_env sample_clock ?m (session_world ?s))
        (asc ''booking:bk-03.01-2026-01-02-1767312000007'')) = Some (Some (asc ''12345''))"
    unfolding 1 2 3 by (simp add: createBooking_def Let_def)
  have b: "map_option (\<lambda>b. d_contact (b_data b))
     (BOOKINGS (on_message_v1 sample_env sample_clock (sample_message (asc '' @john_doe''))
                  (session_world ?s))
        (asc ''booking:bk-03.01-2026-01-02-1767312000007'')) = Some (Some (asc ''@john_doe''))"
    using v1_contact_stored [OF more_examples(3)] contact_examples(2)
    by (simp add: trim_examples)
  have c: "map_option (\<lambda>b. d_contact (b_data b))
     (BOOKINGS (on_message_v1 sample_env sample_clock (sample_message two_line_phone)
                  (session_world ?s))
        (asc ''booking:bk-03.01-2026-01-02-1767312000007'')) = Some (Some two_line_phone)"
    using v1_contact_stored [OF more_examples(4)] more_examples(6)
    by (simp add: more_examples(5))
  from a b c contact_examples more_examples show ?thesis by blast
qed

text \<open>
  Claim C5, amended. In the first variant, for every text that reaches the contact step
  of a live session: when the text, trimmed of white space at both ends, is a handle
  (an at sign and 4 to 32 letters, digits or underscores) or has the shape of a phone
  (only digits, plus signs, white space, parentheses and hyphens, with 10 to 15
  digits), a booking with the trimmed text as its contact is stored and the session is
  deleted; otherwise the visitor is asked again and nothing is written. The four
  examples of the specification are decided as it says. In the second variant every
  text that reaches the contact step is taken as the contact: a booking with that text
  is stored and the session is deleted.
\<close>

theorem contact_step_accepts_valid_contact:
  assumes "STATE w (userKey m) = Some s"
    and "s_step s = Some ex_contact"
    and "\<not> session_expired (c_now c) s"
    and "msg_text m = Some text"
    and "\<not> menu_text_v1 text"
  shows "(spec_handle (js_trim text) \<or> phone_shape (js_trim text) \<longrightarrow>
           (\<exists>b. BOOKINGS (on_message_v1 e c m w) = (BOOKINGS w)(asc ''booking:'' @ b_id b \<mapsto> b) \<and>
                b_status b = StNew \<and> b_type b = Excursion \<and>
                b_id b = asc ''bk-'' @ or_else (s_date s) (asc ''na'') @ asc ''-'' @ c_today c
                           @ asc ''-'' @ show_nat (c_ts c) \<and>
                d_contact (b_data b) = Some (js_trim text) \<and>
                STATE (on_message_v1 e c m w) = (STATE w)(userKey m := None))) \<and>
         (\<not> (spec_handle (js_trim text) \<or> phone_shape (js_trim text)) \<longrightarrow>
           on_message_v1 e c m w =
             w\<lparr> trace := trace w @
                  [SendMessage (msg_chat_id m) BadContactText (Some FlowKeyboard),
                   SendMessage (msg_chat_id m) AskContactText (Some FlowKeyboard)] \<rparr>) \<and>
         isValidPhone (js_trim (asc ''+7 999 123-45-67'')) \<and>
         isValidTelegram (js_trim (asc ''@john_doe'')) \<and>
         \<not> isValidTelegram (js_trim (asc ''12345'')) \<and> \<not> isValidPhone (js_trim (asc ''12345'')) \<and>
         \<not> isValidTelegram (js_trim (asc ''@a'')) \<and> \<not> isValidPhone (js_trim (asc ''@a'')) \<and>
         (\<not> menu_text_v2 e m text \<longrightarrow>
           (\<exists>b. BOOKINGS (on_message_v2 e c m w) = (BOOKINGS w)(asc ''booking:'' @ b_id b \<mapsto> b) \<and>
                b_status b = StNew \<and> b_type b = Excursion \<and>
                b_id b = asc ''bk-'' @ or_else (s_date s) (asc ''na'') @ asc ''-'' @ c_today c
                           @ asc ''-'' @ show_nat (c_ts c) \<and>
                d_contact (b_data b) = Some text \<and>
                STATE (on_message_v2 e c m w) = (STATE w)(userKey m := None)))"
proof -
  have 1: "on_message_v1 e c m w = ex_contact_step_v1 e c m text s w"
    using assms by (simp add: on_message_v1_live dispatch_v1_contact)
  have 2: "on_message_v2 e c m w =
      ex_contact_step_v2 e c m (MainKeyboard (isAdminUserId e (msg_from_id m))) text s w"
    if "\<not> menu_text_v2 e m text"
    using assms that by (simp add: on_message_v2_live dispatch_v2_contact)
  have 3: "(\<not> menu_text_v2 e m text \<longrightarrow>
             (\<exists>b. BOOKINGS (on_message_v2 e c m w) = (BOOKINGS w)(asc ''booking:'' @ b_id b \<mapsto> b) \<and>
                  b_status b = StNew \<and> b_type b = Excursion \<and>
                  b_id b = asc ''bk-'' @ or_else (s_date s) (asc ''na'') @ asc ''-'' @ c_today c
                             @ asc ''-'' @ show_nat (c_ts c) \<and>
                  d_contact (b_data b) = Some text \<and>
                  STATE (on_message_v2 e c m w) = (STATE w)(userKey m := None)))"
    using 2 ex_contact_step_v2_accept [of e c m "MainKeyboard (isAdminUserId e (msg_from_id m))"
        "text" s w]
    by simp
  have 4: "(spec_handle (js_trim text) \<or> phone_shape (js_trim text) \<longrightarrow>
           (\<exists>b. BOOKINGS (on_message_v1 e c m w) = (BOOKINGS w)(asc ''booking:'' @ b_id b \<mapsto> b) \<and>
                b_status b = StNew \<and> b_type b = Excursion \<and>
                b_id b = asc ''bk-'' @ or_else (s_date s) (asc ''na'') @ asc ''-'' @ c_today c
                           @ asc ''-'' @ show_nat (c_ts c) \<and>
                d_contact (b_data b) = Some (js_trim text) \<and>
                STATE (on_message_v1 e c m w) = (STATE w)(userKey m := None))) \<and>
         (\<not> (spec_handle (js_trim text) \<or> phone_shape (js_trim text)) \<longrightarrow>
           on_message_v1 e c m w =
             w\<lparr> trace := trace w @
                  [SendMessage (msg_chat_id m) BadContactText (Some FlowKeyboard),
                   SendMessage (msg_chat_id m) AskContactText (Some FlowKeyboard)] \<rparr>) \<and>
         isValidPhone (js_trim (asc ''+7 999 123-45-67'')) \<and>
         isValidTelegram (js_trim (asc ''@john_doe'')) \<and>
         \<not> isValidTelegram (js_trim (asc ''12345'')) \<and> \<not> isValidPhone (js_trim (asc ''12345'')) \<and>
         \<not> isValidTelegram (js_trim (asc ''@a'')) \<and> \<not> isValidPhone (js_trim (asc ''@a''))"
    unfolding 1 isValidTelegram_iff isValidPhone_iff trim_examples
    using ex_contact_step_v1_accept [of "text" e c m s w] ex_contact_step_v1_reject [of "text" e c m s w]
      contact_examples
    by blast
  from 3 4 show ?thesis by blast
qed

theorem contact_step_accepts_valid_contact_witness:
  "STATE (session_world (sample_session ex_contact 1767311900000))
     (userKey (sample_message (asc ''@john_doe''))) = Some (sample_session ex_contact 1767311900000) \<and>
   s_step (sample_session ex_contact 1767311900000) = Some ex_contact \<and>
   \<not> session_expired (c_now sample_clock) (sample_session ex_contact 1767311900000) \<and>
   \<not> menu_text_v1 (asc ''@john_doe'') \<and> \<not> menu_text_v1 (asc ''12345'') \<and>
   spec_handle (js_trim (asc ''@john_doe'')) \<and>
   map_option (\<lambda>b. d_contact (b_data b))
     (BOOKINGS (on_message_v1 sample_env sample_clock (sample_message (asc ''@john_doe''))
                  (session_world (sample_session ex_contact 1767311900000)))
        (asc ''booking:bk-03.01-2026-01-02-1767312000007'')) = Some (Some (asc ''@john_doe'')) \<and>
   STATE (on_message_v1 sample_env sample_clock (sample_message (asc ''@john_doe''))
            (session_world (sample_session ex_contact 1767311900000))) (asc ''user:555'') = None \<and>
   on_message_v1 sample_env sample_clock (sample_message (asc ''12345''))
       (session_world (sample_session ex_contact 1767311900000)) =
     (session_world (sample_session ex_contact 1767311900000))
       \<lparr> trace := [SendMessage 555 BadContactText (Some FlowKeyboard),
                   SendMessage 555 AskContactText (Some FlowKeyboard)] \<rparr> \<and>
   \<not> menu_text_v1 (asc '' @john_doe'') \<and>
   \<not> menu_text_v2 sample_env (sample_message (asc '' @john_doe'')) (asc '' @john_doe'') \<and>
   map_option (\<lambda>b. d_contact (b_data b))
     (BOOKINGS (on_message_v2 sample_env sample_clock (sample_message (asc '' @john_doe''))
                  (session_world (sample_session ex_contact 1767311900000)))
        (asc ''booking:bk-03.01-2026-01-02-1767312000007'')) = Some (Some (asc '' @john_doe''))"
proof -
  let ?s = "sample_session ex_contact 1767311900000"
  let ?w = "session_world ?s"
  let ?v2 = "on_message_v2 sample_env sample_clock (sample_message (asc '' @john_doe'')) ?w"
  let ?ok = "on_message_v1 sample_env sample_clock (sample_message (asc ''@john_doe'')) ?w"
  have v: "spec_handle (js_trim (asc ''@john_doe''))"
    "\<not> (spec_handle (js_trim (asc ''12345'')) \<or> phone_shape (js_trim (asc ''12345'')))"
    using contact_examples by (simp_all add: trim_examples)
  have t: "trace ?w = []" by (simp add: session_world_def empty_world_def)
  from contact_step_accepts_valid_contact [OF sample_state sample_session_step sample_live sample_msg_sel(1) more_examples(1),
      where e = sample_env] v(1)
  obtain b where b: "BOOKINGS ?ok = (BOOKINGS ?w)(asc ''booking:'' @ b_id b \<mapsto> b)"
    "b_id b = asc ''bk-'' @ or_else (s_date ?s) (asc ''na'') @ asc ''-'' @ c_today sample_clock
                        @ asc ''-'' @ show_nat (c_ts sample_clock)"
    "d_contact (b_data b) = Some (js_trim (asc ''@john_doe''))"
    "STATE ?ok = (STATE ?w)(userKey (sample_message (asc ''@john_doe'')) := None)"
    by blast
  from b(2) have k: "asc ''booking:'' @ b_id b = asc ''booking:bk-03.01-2026-01-02-1767312000007''"
    by (simp only: sample_session_date sample_booking_key)
  have 1: "map_option (\<lambda>b. d_contact (b_data b))
     (BOOKINGS ?ok (asc ''booking:bk-03.01-2026-01-02-1767312000007'')) = Some (Some (asc ''@john_doe''))"
    unfolding b(1) k by (simp add: b(3) trim_examples)
  have 2: "STATE ?ok (asc ''user:555'') = None"
    unfolding b(4) by (simp add: userKey_sample)
  from contact_step_accepts_valid_contact [OF sample_state sample_session_step sample_live sample_msg_sel(1) more_examples(2),
      where e = sample_env] v(2)
  have 3: "on_message_v1 sample_env sample_clock (sample_message (asc ''12345'')) ?w =
     ?w\<lparr> trace := [SendMessage 555 BadContactText (Some FlowKeyboard),
                   SendMessage 555 AskContactText (Some FlowKeyboard)] \<rparr>"
    by (simp add: sample_msg_sel t)
  from contact_step_accepts_valid_contact [OF sample_state sample_session_step sample_live sample_msg_sel(1) more_examples(3),
      where e = sample_env] v2_free_texts(2) [of "asc '' @john_doe''"]
  obtain b2 where b2: "BOOKINGS ?v2 = (BOOKINGS ?w)(asc ''booking:'' @ b_id b2 \<mapsto> b2)"
    "b_id b2 = asc ''bk-'' @ or_else (s_date ?s) (asc ''na'') @ asc ''-'' @ c_today sample_clock
                        @ asc ''-'' @ show_nat (c_ts sample_clock)"
    "d_contact (b_data b2) = Some (asc '' @john_doe'')"
    by blast
  from b2(2) have k2: "asc ''booking:'' @ b_id b2 = asc ''booking:bk-03.01-2026-01-02-1767312000007''"
    by (simp only: sample_session_date sample_booking_key)
  have 4: "map_option (\<lambda>b. d_contact (b_data b))
     (BOOKINGS ?v2 (asc ''booking:bk-03.01-2026-01-02-1767312000007'')) = Some (Some (asc '' @john_doe''))"
    unfolding b2(1) k2 by (simp add: b2(3))
  from 1 2 3 4 v(1) more_examples(1,2,3) sample_state [of ?s "asc ''@john_doe''"]
    sample_live [of ex_contact] sample_session_step [of ex_contact]
    v2_free_texts(2) [of "asc '' @john_doe''"]
  show ?thesis by blast
qed

text \<open>
  Claim C6, as stated, fails: the people step of the second variant shows no buttons
  and stores any text; the free text \<open>7\<close> is stored and the session moves on to the
  contact step.
\<close>

theorem people_validation_counterexample:
  "asc ''7'' \<notin> set allowed_people \<and>
   STATE (on_message_v2 sample_env sample_clock (sample_message (asc ''7''))
            (session_world (sample_session ex_people 1767311900000))) (asc ''user:555'') =
     Some ((sample_session ex_people 1767311900000)
            \<lparr> s_people := Some (asc ''7''), s_step := Some ex_contact,
              s_expiresAt := Some 1767312600005 \<rparr>)"
proof -
  let ?s = "sample_session ex_people 1767311900000"
  have 1: "on_message_v2 sample_env sample_clock (sample_message (asc ''7'')) (session_world ?s)
      = dispatch_v2 sample_env sample_clock (sample_message (asc ''7'')) ?s (session_world ?s)"
    by (rule on_message_v2_live [OF sample_state sample_live])
  have 2: "dispatch_v2 sample_env sample_clock (sample_message (asc ''7'')) ?s w =
      sendMessage 555 AskContactText (Some NoKeyboard)
        (setState sample_clock (asc ''user:555'')
           (?s\<lparr> s_people := Some (asc ''7''), s_step := Some ex_contact \<rparr>) w)" for w
    by (simp add: dispatch_v2_def Let_def sample_msg_sel or_else_def userKey_sample
        sample_session_step v2_texts asc_def)
  show ?thesis
    unfolding 1 2 by (simp add: setState_def sample_clock_def label_defs)
qed

text \<open>
  Claim C6, amended. In the first variant, for every text that reaches the people step
  of a live session: a label of the keyboard is stored in its canonical form (more
  than 11 as \<open>11+\<close>, 6 to 10 as \<open>6-10\<close>, the numerals as they are) and the session moves
  on to the contact step with a fresh expiry; any other text, \<open>7\<close> among them, gets the
  request to use the buttons and nothing is written. In the second variant every
  text that reaches the people step is stored as it is and the session moves on to the
  contact step.
\<close>

theorem people_step_accepts_labels:
  assumes "STATE w (userKey m) = Some s"
    and "s_step s = Some ex_people"
    and "\<not> session_expired (c_now c) s"
    and "msg_text m = Some text"
    and "\<not> menu_text_v1 text"
  shows "(text \<in> set allowed_people \<longrightarrow>
           on_message_v1 e c m w =
             w\<lparr> STATE := (STATE w)(userKey m \<mapsto>
                    s\<lparr> s_people := Some (stored_people text), s_step := Some ex_contact,
                       s_expiresAt := Some (c_set c + 600000) \<rparr>),
                trace := trace w @
                  [StatePut (userKey m)
                     (s\<lparr> s_people := Some (stored_people text), s_step := Some ex_contact,
                        s_expiresAt := Some (c_set c + 600000) \<rparr>),
                   SendMessage (msg_chat_id m) AskContactText (Some FlowKeyboard)] \<rparr>) \<and>
         (text \<notin> set allowed_people \<longrightarrow>
           on_message_v1 e c m w =
             w\<lparr> trace := trace w @
                  [SendMessage (msg_chat_id m) PickPeopleButtonText (Some ExPeopleKeyboard)] \<rparr>) \<and>
         set allowed_people =
           {asc ''1'', asc ''2'', asc ''3'', asc ''4'', asc ''5'', asc ''6'', label_6_10, label_more_11} \<and>
         stored_people label_more_11 = asc ''11+'' \<and>
         stored_people label_6_10 = asc ''6-10'' \<and>
         list_all (\<lambda>x. stored_people x = x)
           [asc ''1'', asc ''2'', asc ''3'', asc ''4'', asc ''5'', asc ''6''] \<and>
         asc ''7'' \<notin> set allowed_people \<and>
         (\<not> menu_text_v2 e m text \<longrightarrow>
           on_message_v2 e c m w =
             w\<lparr> STATE := (STATE w)(userKey m \<mapsto>
                    s\<lparr> s_people := Some text, s_step := Some ex_contact,
                       s_expiresAt := Some (c_set c + 600000) \<rparr>),
                trace := trace w @
                  [StatePut (userKey m)
                     (s\<lparr> s_people := Some text, s_step := Some ex_contact,
                        s_expiresAt := Some (c_set c + 600000) \<rparr>),
                   SendMessage (msg_chat_id m) AskContactText (Some NoKeyboard)] \<rparr>)"
proof -
  have 1: "on_message_v1 e c m w = ex_people_step_v1 c (userKey m) (msg_chat_id m) text s w"
    using assms by (simp add: on_message_v1_live dispatch_v1_people)
  have 2: "text \<in> set allowed_people \<longrightarrow>
           on_message_v1 e c m w =
             w\<lparr> STATE := (STATE w)(userKey m \<mapsto>
                    s\<lparr> s_people := Some (stored_people text), s_step := Some ex_contact,
                       s_expiresAt := Some (c_set c + 600000) \<rparr>),
                trace := trace w @
                  [StatePut (userKey m)
                     (s\<lparr> s_people := Some (stored_people text), s_step := Some ex_contact,
                        s_expiresAt := Some (c_set c + 600000) \<rparr>),
                   SendMessage (msg_chat_id m) AskContactText (Some FlowKeyboard)] \<rparr>"
    by (simp add: 1 ex_people_step_v1_def setState_def emit_def)
  have 3: "text \<notin> set allowed_people \<longrightarrow>
           on_message_v1 e c m w =
             w\<lparr> trace := trace w @
                  [SendMessage (msg_chat_id m) PickPeopleButtonText (Some ExPeopleKeyboard)] \<rparr>"
    by (simp add: 1 ex_people_step_v1_def emit_def)
  have 4: "set allowed_people =
           {asc ''1'', asc ''2'', asc ''3'', asc ''4'', asc ''5'', asc ''6'', label_6_10, label_more_11}"
    by (simp add: allowed_people_def)
  have 5: "stored_people label_more_11 = asc ''11+''" "stored_people label_6_10 = asc ''6-10''"
    "list_all (\<lambda>x. stored_people x = x)
           [asc ''1'', asc ''2'', asc ''3'', asc ''4'', asc ''5'', asc ''6'']"
    "asc ''7'' \<notin> set allowed_people"
    by (simp_all add: label_defs)
  have 6: "(\<not> menu_text_v2 e m text \<longrightarrow>
             on_message_v2 e c m w =
               w\<lparr> STATE := (STATE w)(userKey m \<mapsto>
                      s\<lparr> s_people := Some text, s_step := Some ex_contact,
                         s_expiresAt := Some (c_set c + 600000) \<rparr>),
                  trace := trace w @
                    [StatePut (userKey m)
                       (s\<lparr> s_people := Some text, s_step := Some ex_contact,
                          s_expiresAt := Some (c_set c + 600000) \<rparr>),
                     SendMessage (msg_chat_id m) AskContactText (Some NoKeyboard)] \<rparr>)"
    using assms
    by (simp add: on_message_v2_live dispatch_v2_people setState_def emit_def)
  from 2 3 4 5 6 show ?thesis by blast
qed

theorem people_step_accepts_labels_witness:
  "STATE (session_world (sample_session ex_people 1767311900000))
     (userKey (sample_message label_more_11)) = Some (sample_session ex_people 1767311900000) \<and>
   s_step (sample_session ex_people 1767311900000) = Some ex_people \<and>
   \<not> session_expired (c_now sample_clock) (sample_session ex_people 1767311900000) \<and>
   \<not> menu_text_v1 label_more_11 \<and> \<not> menu_text_v1 (asc ''7'') \<and>
   label_more_11 \<in> set allowed_people \<and>
   STATE (on_message_v1 sample_env sample_clock (sample_message label_more_11)
            (session_world (sample_session ex_people 1767311900000))) (asc ''user:555'') =
     Some ((sample_session ex_people 1767311900000)
            \<lparr> s_people := Some (asc ''11+''), s_step := Some ex_contact,
              s_expiresAt := Some 1767312600005 \<rparr>) \<and>
   on_message_v1 sample_env sample_clock (sample_message (asc ''7''))
       (session_world (sample_session ex_people 1767311900000)) =
     (session_world (sample_session ex_people 1767311900000))
       \<lparr> trace := [SendMessage 555 PickPeopleButtonText (Some ExPeopleKeyboard)] \<rparr> \<and>
   \<not> menu_text_v2 sample_env (sample_message (asc ''7'')) (asc ''7'') \<and>
   STATE (on_message_v2 sample_env sample_clock (sample_message (asc ''7''))
            (session_world (sample_session ex_people 1767311900000))) (asc ''user:555'') =
     Some ((sample_session ex_people 1767311900000)
            \<lparr> s_people := Some (asc ''7''), s_step := Some ex_contact,
              s_expiresAt := Some 1767312600005 \<rparr>)"
proof -
  let ?s = "sample_session ex_people 1767311900000"
  have m: "\<not> menu_text_v1 label_more_11" "\<not> menu_text_v1 (asc ''7'')"
    by (simp_all add: menu_defs label_defs)
  have a: "label_more_11 \<in> set allowed_people" "asc ''7'' \<notin> set allowed_people"
    by (simp_all add: label_defs)
  have t: "trace (session_world s) = []" for s by (simp add: session_world_def empty_world_def)
  from people_step_accepts_labels [OF sample_state sample_session_step sample_live sample_msg_sel(1) m(1),
      of sample_env] a(1)
  have 1: "STATE (on_message_v1 sample_env sample_clock (sample_message label_more_11) (session_world ?s))
       (asc ''user:555'') =
     Some (?s\<lparr> s_people := Some (asc ''11+''), s_step := Some ex_contact,
              s_expiresAt := Some 1767312600005 \<rparr>)"
    by (simp add: userKey_sample sample_clock_def stored_people_def label_6_10_def label_more_11_def)
  from people_step_accepts_labels [OF sample_state sample_session_step sample_live sample_msg_sel(1) m(2),
      of sample_env] a(2)
  have 2: "on_message_v1 sample_env sample_clock (sample_message (asc ''7'')) (session_world ?s) =
     (session_world ?s)\<lparr> trace := [SendMessage 555 PickPeopleButtonText (Some ExPeopleKeyboard)] \<rparr>"
    by (simp add: sample_msg_sel t)
  from people_step_accepts_labels [OF sample_state sample_session_step sample_live sample_msg_sel(1) m(2),
      of sample_env] v2_free_texts(1) [of "asc ''7''"]
  have 3: "STATE (on_message_v2 sample_env sample_clock (sample_message (asc ''7'')) (session_world ?s))
       (asc ''user:555'') =
     Some (?s\<lparr> s_people := Some (asc ''7''), s_step := Some ex_contact,
              s_expiresAt := Some 1767312600005 \<rparr>)"
    by (simp add: userKey_sample sample_clock_def)
  from 1 2 3 m a sample_state [of ?s label_more_11] sample_live [of ex_people]
    v2_free_texts(1) [of "asc ''7''"]
  show ?thesis by (simp add: sample_session_step)
qed

text \<open>
  Claim C7, as stated, fails: two bookings created for the same date at the same
  reading of the clock get the same id, and the second overwrites the first in the
  store.
\<close>

theorem booking_id_collision:
  "b_id (fst (createBooking sample_clock (sample_request ''Anna'') empty_world)) =
     asc ''bk-03.01-2026-01-02-1767312000007'' \<and>
   b_id (fst (createBooking sample_clock (sample_request ''Boris'')
                (snd (createBooking sample_clock (sample_request ''Anna'') empty_world)))) =
     asc ''bk-03.01-2026-01-02-1767312000007'' \<and>
   map_option (\<lambda>b. d_name (b_data b))
     (BOOKINGS (snd (createBooking sample_clock (sample_request ''Anna'') empty_world))
        (asc ''booking:bk-03.01-2026-01-02-1767312000007'')) = Some (Some (asc ''Anna'')) \<and>
   map_option (\<lambda>b. d_name (b_data b))
     (BOOKINGS (snd (createBooking sample_clock (sample_request ''Boris'')
                (snd (createBooking sample_clock (sample_request ''Anna'') empty_world))))
        (asc ''booking:bk-03.01-2026-01-02-1767312000007'')) = Some (Some (asc ''Boris'')) \<and>
   dom (BOOKINGS (snd (createBooking sample_clock (sample_request ''Boris'')
                (snd (createBooking sample_clock (sample_request ''Anna'') empty_world))))) =
     {asc ''booking:bk-03.01-2026-01-02-1767312000007''}"
proof -
  have ne: "asc ''bk-03.01-2026-01-02-1767312000007'' \<noteq> []" by (simp add: asc_def)
  have k: "asc ''booking:'' @ asc ''bk-03.01-2026-01-02-1767312000007'' =
           asc ''booking:bk-03.01-2026-01-02-1767312000007''" by (simp add: asc_def)
  show ?thesis
    by (simp add: createBooking_def Let_def sample_id_value saveBooking_def ne k empty_world_def)
       (simp add: sample_request_def)
qed

text \<open>
  Claim C7, amended. The id is made of the date part of the booking, the day and the
  millisecond timestamp, and of nothing else: two ids are equal exactly when these
  three agree. When two bookings are created with equal ids, the second is stored under
  the key of the first and replaces it: the store afterwards is the store before with
  that one key holding the second booking.
\<close>

theorem booking_id_equal_iff:
  assumes "length (c_today c1) = 10" "length (c_today c2) = 10"
  shows "((generateBookingId c1 d1 = generateBookingId c2 d2) =
          (event_part d1 = event_part d2 \<and> c_today c1 = c_today c2 \<and> c_ts c1 = c_ts c2)) \<and>
         (generateBookingId c1 d1 = generateBookingId c2 d2 \<longrightarrow>
           BOOKINGS (snd (createBooking c2 d2 (snd (createBooking c1 d1 w)))) =
             (BOOKINGS w)(asc ''booking:'' @ generateBookingId c2 d2 \<mapsto>
                fst (createBooking c2 d2 (snd (createBooking c1 d1 w)))))"
proof (intro conjI impI)
  assume "generateBookingId c1 d1 = generateBookingId c2 d2"
  then show "BOOKINGS (snd (createBooking c2 d2 (snd (createBooking c1 d1 w)))) =
             (BOOKINGS w)(asc ''booking:'' @ generateBookingId c2 d2 \<mapsto>
                fst (createBooking c2 d2 (snd (createBooking c1 d1 w))))"
    by (rule createBooking_twice)
next
  show "(generateBookingId c1 d1 = generateBookingId c2 d2) =
          (event_part d1 = event_part d2 \<and> c_today c1 = c_today c2 \<and> c_ts c1 = c_ts c2)"
  proof
    assume eq: "generateBookingId c1 d1 = generateBookingId c2 d2"
    then have "(event_part d1 @ 0x2D # c_today c1) @ 0x2D # show_nat (c_ts c1) =
               (event_part d2 @ 0x2D # c_today c2) @ 0x2D # show_nat (c_ts c2)"
      by (simp add: generateBookingId_def asc_def)
    from split_at_last [OF this hyphen_not_in_show_nat hyphen_not_in_show_nat]
    have a: "event_part d1 @ 0x2D # c_today c1 = event_part d2 @ 0x2D # c_today c2"
      and b: "show_nat (c_ts c1) = show_nat (c_ts c2)" by simp_all
    from a assms have "event_part d1 = event_part d2 \<and> 0x2D # c_today c1 = 0x2D # c_today c2"
      by (intro append_eq_append_conv [THEN iffD1, OF _ a, THEN conjunct1 [THEN conjI [OF _ _]]]) simp_all
    with b show "event_part d1 = event_part d2 \<and> c_today c1 = c_today c2 \<and> c_ts c1 = c_ts c2"
      by (simp add: show_nat_inj)
  next
    assume "event_part d1 = event_part d2 \<and> c_today c1 = c_today c2 \<and> c_ts c1 = c_ts c2"
    then show "generateBookingId c1 d1 = generateBookingId c2 d2"
      by (simp add: generateBookingId_def)
  qed
qed

theorem booking_id_equal_iff_witness:
  "length (c_today sample_clock) = 10 \<and>
   length (c_today (sample_clock\<lparr> c_ts := 1767312000008 \<rparr>)) = 10 \<and>
   generateBookingId sample_clock (sample_request ''Anna'') \<noteq>
     generateBookingId (sample_clock\<lparr> c_ts := 1767312000008 \<rparr>) (sample_request ''Anna'') \<and>
   generateBookingId sample_clock (sample_request ''Anna'') =
     generateBookingId sample_clock (sample_request ''Boris'') \<and>
   BOOKINGS (snd (createBooking sample_clock (sample_request ''Boris'')
      (snd (createBooking sample_clock (sample_request ''Anna'') empty_world)))) =
     (BOOKINGS empty_world)(asc ''booking:'' @ generateBookingId sample_clock (sample_request ''Boris'') \<mapsto>
        fst (createBooking sample_clock (sample_request ''Boris'')
          (snd (createBooking sample_clock (sample_request ''Anna'') empty_world))))"
proof -
  have t: "length (c_today (sample_clock\<lparr> c_ts := 1767312000008 \<rparr>)) = 10"
    by (simp add: sample_today)
  have p: "event_part (sample_request ''Anna'') = event_part (sample_request ''Boris'')"
    by (simp add: event_part_def sample_request_def)
  from booking_id_equal_iff [OF sample_today t, of "sample_request ''Anna''" "sample_request ''Anna''",
      THEN conjunct1]
  have n: "generateBookingId sample_clock (sample_request ''Anna'') \<noteq>
     generateBookingId (sample_clock\<lparr> c_ts := 1767312000008 \<rparr>) (sample_request ''Anna'')"
    by (simp add: sample_clock_def)
  from booking_id_equal_iff [OF sample_today sample_today, of "sample_request ''Anna''" "sample_request ''Boris''",
      THEN conjunct1] p
  have e: "generateBookingId sample_clock (sample_request ''Anna'') =
     generateBookingId sample_clock (sample_request ''Boris'')"
    by simp
  from booking_id_equal_iff [OF sample_today sample_today, of "sample_request ''Anna''" "sample_request ''Boris''"
      empty_world, THEN conjunct2] e
  have o: "BOOKINGS (snd (createBooking sample_clock (sample_request ''Boris'')
        (snd (createBooking sample_clock (sample_request ''Anna'') empty_world)))) =
       (BOOKINGS empty_world)(asc ''booking:'' @ generateBookingId sample_clock (sample_request ''Boris'') \<mapsto>
          fst (createBooking sample_clock (sample_request ''Boris'')
            (snd (createBooking sample_clock (sample_request ''Anna'') empty_world))))"
    by blast
  from sample_today t n e o show ?thesis by blast
qed

text \<open>
  Claim C8. A stored session (written at some time \<open>t0\<close>, so expiring at
  \<open>t0 + 600000\<close>) that has expired when a message is read is deleted and replaced by
  the empty session before the handler, in either variant, looks at the text or the
  step. And every session write sets \<open>expiresAt\<close> to the clock of \<open>setState\<close> plus 600000
  milliseconds, whatever the session was: \<open>setState\<close> stores the session it is given
  with that expiry; a message handler changes the stores by the effects of its trace
  and by nothing else, and every session write among them has that expiry, so that a
  session found in the store afterwards either was there before or has that expiry; and
  the buttons that start a flow do write such a session.
\<close>

theorem expired_session_dropped:
  "(STATE w (userKey m) = Some s \<and> s_expiresAt s = Some (t0 + 600000) \<and> t0 + 600000 < c_now c \<longrightarrow>
      load_session c (userKey m) w =
        (empty_session,
         w\<lparr> STATE := (STATE w)(userKey m := None), trace := trace w @ [StateDelete (userKey m)] \<rparr>) \<and>
      on_message_v2 e c m w =
        dispatch_v2 e c m empty_session
          (w\<lparr> STATE := (STATE w)(userKey m := None), trace := trace w @ [StateDelete (userKey m)] \<rparr>) \<and>
      on_message_v1 e c m w =
        dispatch_v1 e c m empty_session
          (w\<lparr> STATE := (STATE w)(userKey m := None), trace := trace w @ [StateDelete (userKey m)] \<rparr>)) \<and>
   setState c key s1 w =
     w\<lparr> STATE := (STATE w)(key \<mapsto> s1\<lparr> s_expiresAt := Some (c_set c + 600000) \<rparr>),
        trace := trace w @ [StatePut key (s1\<lparr> s_expiresAt := Some (c_set c + 600000) \<rparr>)] \<rparr> \<and>
   on_message_v2 e c m w = replay (new_effects w (on_message_v2 e c m w)) w \<and>
   list_all (fresh_put c) (new_effects w (on_message_v2 e c m w)) \<and>
   on_message_v1 e c m w = replay (new_effects w (on_message_v1 e c m w)) w \<and>
   list_all (fresh_put c) (new_effects w (on_message_v1 e c m w)) \<and>
   (\<forall>k s2. STATE (on_message_v2 e c m w) k = Some s2 \<longrightarrow>
      STATE w k = Some s2 \<or> s_expiresAt s2 = Some (c_set c + 600000)) \<and>
   (\<forall>k s2. STATE (on_message_v1 e c m w) k = Some s2 \<longrightarrow>
      STATE w k = Some s2 \<or> s_expiresAt s2 = Some (c_set c + 600000)) \<and>
   (msg_text m = Some txt_ny_events \<longrightarrow>
      STATE (on_message_v2 e c m w) (userKey m) =
        Some (empty_session\<lparr> s_step := Some ny_choose, s_expiresAt := Some (c_set c + 600000) \<rparr>)) \<and>
   (msg_text m = Some txt_book_excursion \<longrightarrow>
      STATE (on_message_v1 e c m w) (userKey m) =
        Some (empty_session\<lparr> s_step := Some ex_name, s_expiresAt := Some (c_set c + 600000) \<rparr>))"
proof -
  let ?d = "w\<lparr> STATE := (STATE w)(userKey m := None), trace := trace w @ [StateDelete (userKey m)] \<rparr>"
  have 1: "load_session c (userKey m) w = (empty_session, ?d)"
    "on_message_v2 e c m w = dispatch_v2 e c m empty_session ?d"
    "on_message_v1 e c m w = dispatch_v1 e c m empty_session ?d"
    if "STATE w (userKey m) = Some s" "s_expiresAt s = Some (t0 + 600000)" "t0 + 600000 < c_now c"
  proof -
    from that show l: "load_session c (userKey m) w = (empty_session, ?d)"
      by (simp add: load_session_def session_expired_def emit_def)
    show "on_message_v2 e c m w = dispatch_v2 e c m empty_session ?d"
      "on_message_v1 e c m w = dispatch_v1 e c m empty_session ?d"
      by (simp_all add: l on_message_v2_def on_message_v1_def)
  qed
  have 2: "setState c key s1 w =
     w\<lparr> STATE := (STATE w)(key \<mapsto> s1\<lparr> s_expiresAt := Some (c_set c + 600000) \<rparr>),
        trace := trace w @ [StatePut key (s1\<lparr> s_expiresAt := Some (c_set c + 600000) \<rparr>)] \<rparr>"
    by (simp add: setState_def emit_def)
  note 3 = extends_new_effects [OF ext_on_message_v2 [of c w e m]]
    extends_new_effects [OF ext_on_message_v1 [of c w e m]]
  have 4: "STATE w k = Some s2 \<or> s_expiresAt s2 = Some (c_set c + 600000)"
    if "STATE (on_message_v2 e c m w) k = Some s2 \<or> STATE (on_message_v1 e c m w) k = Some s2"
    for k s2
    using that stored_sessions_fresh [OF ext_on_message_v2 [of c w e m]]
      stored_sessions_fresh [OF ext_on_message_v1 [of c w e m]]
    by blast
  obtain s0 v where l: "load_session c (userKey m) w = (s0, v)" by (metis prod.exhaust)
  have 5: "STATE (on_message_v2 e c m w) (userKey m) =
        Some (empty_session\<lparr> s_step := Some ny_choose, s_expiresAt := Some (c_set c + 600000) \<rparr>)"
    if "msg_text m = Some txt_ny_events"
    using that
    by (simp add: on_message_v2_def l dispatch_v2_def Let_def or_else_def startNyMenu_def
        setState_def v2_texts asc_def)
  have 6: "STATE (on_message_v1 e c m w) (userKey m) =
        Some (empty_session\<lparr> s_step := Some ex_name, s_expiresAt := Some (c_set c + 600000) \<rparr>)"
    if "msg_text m = Some txt_book_excursion"
    using that
    by (simp add: on_message_v1_def l dispatch_v1_def Let_def or_else_def
        setState_def v2_texts asc_def)
  from 1 2 3 4 5 6 show ?thesis by blast
qed

theorem expired_session_dropped_witness:
  "STATE (session_world (sample_session ex_people 1000)) (userKey (sample_message txt_book_excursion))
     = Some (sample_session ex_people 1000) \<and>
   s_expiresAt (sample_session ex_people 1000) = Some (1000 + 600000) \<and>
   1000 + 600000 < c_now sample_clock \<and>
   on_message_v2 sample_env sample_clock (sample_message txt_book_excursion)
       (session_world (sample_session ex_people 1000)) =
     empty_world
       \<lparr> STATE := [asc ''user:555'' \<mapsto>
            empty_session\<lparr> s_step := Some ex_name, s_expiresAt := Some 1767312600005 \<rparr>],
         trace := [StateDelete (asc ''user:555''),
           StatePut (asc ''user:555'')
             (empty_session\<lparr> s_step := Some ex_name, s_expiresAt := Some 1767312600005 \<rparr>),
           SendMessage 555 AskNameText (Some NoKeyboard)] \<rparr> \<and>
   on_message_v1 sample_env sample_clock (sample_message txt_book_excursion)
       (session_world (sample_session ex_people 1000)) =
     empty_world
       \<lparr> STATE := [asc ''user:555'' \<mapsto>
            empty_session\<lparr> s_step := Some ex_name, s_expiresAt := Some 1767312600005 \<rparr>],
         trace := [StateDelete (asc ''user:555''),
           StatePut (asc ''user:555'')
             (empty_session\<lparr> s_step := Some ex_name, s_expiresAt := Some 1767312600005 \<rparr>),
           SendMessage 555 AskNameWithHintText (Some FlowKeyboard)] \<rparr>"
proof -
  let ?s = "sample_session ex_people 1000"
  let ?m = "sample_message txt_book_excursion"
  let ?d = "(session_world ?s)\<lparr> STATE := (STATE (session_world ?s))(userKey ?m := None),
                trace := trace (session_world ?s) @ [StateDelete (userKey ?m)] \<rparr>"
  have h: "s_expiresAt ?s = Some (1000 + 600000)" "1000 + 600000 < c_now sample_clock"
    by (simp_all add: sample_session_def sample_clock_def)
  have d2: "dispatch_v2 sample_env sample_clock ?m empty_session w =
      emit (SendMessage 555 AskNameText (Some NoKeyboard))
        (setState sample_clock (asc ''user:555'') (empty_session\<lparr> s_step := Some ex_name \<rparr>) w)" for w
    by (simp add: dispatch_v2_def Let_def sample_msg_sel or_else_def userKey_sample
        v2_texts asc_def empty_session_def sample_not_admin)
  have d1: "dispatch_v1 sample_env sample_clock ?m empty_session w =
      emit (SendMessage 555 AskNameWithHintText (Some FlowKeyboard))
        (setState sample_clock (asc ''user:555'') (empty_session\<lparr> s_step := Some ex_name \<rparr>) w)" for w
    by (simp add: dispatch_v1_def Let_def sample_msg_sel or_else_def userKey_sample
        v2_texts asc_def empty_session_def)
  from expired_session_dropped [where w = "session_world ?s" and m = ?m and s = ?s and ?t0.0 = 1000
      and c = sample_clock and e = sample_env]
    sample_state [of ?s txt_book_excursion] h
  have eq: "on_message_v2 sample_env sample_clock ?m (session_world ?s) =
           dispatch_v2 sample_env sample_clock ?m empty_session ?d"
    "on_message_v1 sample_env sample_clock ?m (session_world ?s) =
           dispatch_v1 sample_env sample_clock ?m empty_session ?d"
    by blast+
  have r: "emit x (setState sample_clock (asc ''user:555'') (empty_session\<lparr> s_step := Some ex_name \<rparr>) ?d) =
     empty_world
       \<lparr> STATE := [asc ''user:555'' \<mapsto>
            empty_session\<lparr> s_step := Some ex_name, s_expiresAt := Some 1767312600005 \<rparr>],
         trace := [StateDelete (asc ''user:555''),
           StatePut (asc ''user:555'')
             (empty_session\<lparr> s_step := Some ex_name, s_expiresAt := Some 1767312600005 \<rparr>),
           x] \<rparr>" for x
    by (simp add: userKey_sample session_world_def empty_world_def emit_def setState_def
        sample_clock_def)
  show ?thesis
    unfolding eq d1 d2 r using h sample_state [of ?s txt_book_excursion] by simp
qed

text \<open>
  Claim C9. A callback query from anyone but the configured operator is answered with
  the permission notice and nothing else happens: no store is written and no message
  is sent.
\<close>

theorem unauthorized_callback_denied: "\<not> isAdminUserId e (cq_from cq) \<Longrightarrow>
  on_callback_query e cq w =
    (ResponseOK, w\<lparr> trace := trace w @ [AnswerCallbackQuery (cq_id cq) PermissionDenied] \<rparr>)"
  by (simp add: on_callback_query_def emit_def)

theorem unauthorized_callback_denied_witness:
  "\<not> isAdminUserId sample_env (cq_from (sample_query ''confirm'' 7)) \<and>
   on_callback_query sample_env (sample_query ''confirm'' 7) (sample_world StNew) =
     (ResponseOK, (sample_world StNew)\<lparr> trace := [AnswerCallbackQuery (asc ''cb-1'') PermissionDenied] \<rparr>)"
  using unauthorized_callback_denied [of sample_env "sample_query ''confirm'' 7" "sample_world StNew"]
  by (simp add: sample_query_sel sample_admin sample_world_def)

text \<open>
  Claim C10. A cancel action never changes a capacity counter, and on a confirmed
  booking it stores the booking as declined: the seats booked at confirmation stay
  booked.
\<close>

theorem cancel_keeps_counters:
  assumes "callback_action cq = Some (asc ''cancel'')"
  shows "EVENTS (handleAdminBookingAction cq w) = EVENTS w \<and>
    (\<forall>b. getBooking (callback_bookingId cq) w = Some b \<and> b_status b = StConfirmed \<and> b_id b \<noteq> []
       \<longrightarrow> BOOKINGS (handleAdminBookingAction cq w) (asc ''booking:'' @ b_id b)
             = Some (b\<lparr> b_status := StCancelled \<rparr>))"
  using assms
  by (auto simp: handleAdminBookingAction_def Let_def asc_def saveBooking_def split: option.splits)

theorem cancel_keeps_counters_witness:
  "callback_action (sample_query ''cancel'' 1001) = Some (asc ''cancel'') \<and>
   getBooking (callback_bookingId (sample_query ''cancel'' 1001)) (sample_world StConfirmed)
     = Some (sample_booking\<lparr> b_status := StConfirmed \<rparr>) \<and>
   EVENTS (handleAdminBookingAction (sample_query ''cancel'' 1001) (sample_world StConfirmed))
     = EVENTS (sample_world StConfirmed) \<and>
   BOOKINGS (handleAdminBookingAction (sample_query ''cancel'' 1001) (sample_world StConfirmed)) sample_key
     = Some (sample_booking\<lparr> b_status := StCancelled \<rparr>)"
proof -
  have a: "callback_action (sample_query ''cancel'' 1001) = Some (asc ''cancel'')"
    by (rule sample_parts)
  have g: "getBooking (callback_bookingId (sample_query ''cancel'' 1001)) (sample_world StConfirmed)
     = Some (sample_booking\<lparr> b_status := StConfirmed \<rparr>)"
    by (simp add: getBooking_def sample_parts tpl_def sample_world_def sample_key_def)
  have i: "b_id (sample_booking\<lparr> b_status := StConfirmed \<rparr>) = sample_id"
    by (simp add: sample_booking_def)
  from cancel_keeps_counters [OF a, of "sample_world StConfirmed"] g i sample_id_ne
  show ?thesis using a by (simp add: sample_key_def)
qed

end
